theory Spec2Isabelle
  imports Complex_Main
begin

text \<open>
  A model of the OpenBlock Link simulator: the WebSocket server that keeps, for every
  client, the devices it has attached, answers the protocol's requests after artificial
  delays, pushes telemetry from an interval timer and simulates the execution of uploaded
  code. The functions are those of the simulator script; the second simulator of the
  repository, which can also drive a real board, has the same dispatcher, the same
  handlers for an unattached or simulated device, the same interval timer and the same
  line scan.

  The server is single-threaded: every handler and every timer callback runs to its end.
  The model is a state, one function per handler and per callback, and a function
  \<open>step\<close> that applies one event of the event loop to the state.
\<close>

section \<open>JavaScript strings\<close>

text \<open>
  A JavaScript string is a sequence of UTF-16 code units; \<open>length\<close>, \<open>split\<close>,
  \<open>trim\<close>, \<open>includes\<close> and a regular expression without the \<open>u\<close> flag all work on
  code units. A code unit is modelled as a natural number, an ASCII literal of the source
  is written \<open>js ''...''\<close>, and the few non-ASCII characters of the source's literals are
  given by their code units.
\<close>

type_synonym jsstring = "nat list"

definition js :: "string \<Rightarrow> jsstring" where
  "js s = map of_char s"

fun js_startsWith :: "jsstring \<Rightarrow> jsstring \<Rightarrow> bool" where
  "js_startsWith s [] = True"
| "js_startsWith [] (p # ps) = False"
| "js_startsWith (c # cs) (p # ps) = (c = p \<and> js_startsWith cs ps)"

fun js_includes :: "jsstring \<Rightarrow> jsstring \<Rightarrow> bool" where
  "js_includes [] pat = (pat = [])"
| "js_includes (c # cs) pat = (js_startsWith (c # cs) pat \<or> js_includes cs pat)"

text \<open>\<open>code.split('\n')\<close>: the pieces between line feeds; the empty string gives one empty piece.\<close>

fun js_split_lines :: "jsstring \<Rightarrow> jsstring list" where
  "js_split_lines [] = [[]]"
| "js_split_lines (c # cs) =
     (if c = 10 then [] # js_split_lines cs
      else (case js_split_lines cs of
              [] \<Rightarrow> [[c]]
            | l # ls \<Rightarrow> (c # l) # ls))"

text \<open>\<open>output.join('\n')\<close>.\<close>

fun js_join_lines :: "jsstring list \<Rightarrow> jsstring" where
  "js_join_lines [] = []"
| "js_join_lines [l] = l"
| "js_join_lines (l # m # ls) = l @ 10 # js_join_lines (m # ls)"

text \<open>
  The line terminators of ECMAScript (LF, CR, U+2028, U+2029), which the regular
  expression atom \<open>.\<close> does not match, and its white space, which \<open>trim\<close> removes together
  with the line terminators.
\<close>

definition is_line_terminator :: "nat \<Rightarrow> bool" where
  "is_line_terminator c = (c = 10 \<or> c = 13 \<or> c = 8232 \<or> c = 8233)"

definition is_white_space :: "nat \<Rightarrow> bool" where
  "is_white_space c =
     (c = 9 \<or> c = 11 \<or> c = 12 \<or> c = 32 \<or> c = 160 \<or> c = 5760 \<or> (8192 \<le> c \<and> c \<le> 8202)
      \<or> c = 8239 \<or> c = 8287 \<or> c = 12288 \<or> c = 65279)"

definition is_trimmed :: "nat \<Rightarrow> bool" where
  "is_trimmed c = (is_white_space c \<or> is_line_terminator c)"

definition js_trim :: "jsstring \<Rightarrow> jsstring" where
  "js_trim s = rev (dropWhile is_trimmed (rev (dropWhile is_trimmed s)))"

text \<open>
  \<open>s.replace(/pat/g, rep)\<close> for a pattern that is a literal, non-empty text: every
  occurrence, left to right and without overlap, is replaced.
\<close>

function js_replace_all :: "jsstring \<Rightarrow> jsstring \<Rightarrow> jsstring \<Rightarrow> jsstring" where
  "js_replace_all pat rep [] = []"
| "js_replace_all pat rep (c # cs) =
     (if pat \<noteq> [] \<and> js_startsWith (c # cs) pat
      then rep @ js_replace_all pat rep (drop (length pat - 1) cs)
      else c # js_replace_all pat rep cs)"
  by pat_completeness auto
termination
  by (relation "measure (\<lambda>(pat, rep, s). length s)") auto

text \<open>The decimal text of an integer, as the conversion of a number to a string gives it.\<close>

function show_nat :: "nat \<Rightarrow> jsstring" where
  "show_nat n = (if n < 10 then [48 + n] else show_nat (n div 10) @ [48 + n mod 10])"
  by pat_completeness auto
termination
  by (relation "measure id") auto

definition show_int :: "int \<Rightarrow> jsstring" where
  "show_int i = (if i < 0 then 45 # show_nat (nat (- i)) else show_nat (nat i))"

section \<open>The two regular expressions of handleExecuteCode\<close>

text \<open>
  \<open>/print\(['"](.*?)['"]\)/\<close> and \<open>/print\(f['"](.*?)['"]\)/\<close> differ in their literal
  prefix only. After the prefix and one quote character the lazy group takes the fewest
  characters, none of them a line terminator, such that a quote and a closing parenthesis
  follow; \<open>match\<close> tries the start positions from the left and returns the group of the
  first position that matches.
\<close>

definition is_quote :: "nat \<Rightarrow> bool" where
  "is_quote c = (c = 39 \<or> c = 34)"

fun lazy_group :: "jsstring \<Rightarrow> jsstring option" where
  "lazy_group [] = None"
| "lazy_group (c # cs) =
     (if is_quote c \<and> js_startsWith cs [41] then Some []
      else if is_line_terminator c then None
      else map_option ((#) c) (lazy_group cs))"

definition match_here :: "jsstring \<Rightarrow> jsstring \<Rightarrow> jsstring option" where
  "match_here pre s =
     (if js_startsWith s pre
      then (case drop (length pre) s of
              [] \<Rightarrow> None
            | q # rest \<Rightarrow> if is_quote q then lazy_group rest else None)
      else None)"

fun regex_match :: "jsstring \<Rightarrow> jsstring \<Rightarrow> jsstring option" where
  "regex_match pre [] = match_here pre []"
| "regex_match pre (c # cs) =
     (case match_here pre (c # cs) of
        Some g \<Rightarrow> Some g
      | None \<Rightarrow> regex_match pre cs)"

definition printMatch :: "jsstring \<Rightarrow> jsstring option" where
  "printMatch trimmedLine = regex_match (js ''print('') trimmedLine"

definition fStringMatch :: "jsstring \<Rightarrow> jsstring option" where
  "fStringMatch trimmedLine = regex_match (js ''print(f'') trimmedLine"

section \<open>Math.random\<close>

text \<open>
  \<open>Math.random()\<close> is an oracle of the environment: the state carries the sequence of
  values it will return (real numbers; the source relies on \<open>0 \<le> r < 1\<close>) and the
  number of calls made so far. Floating-point rounding is not modelled.
\<close>

record random_source =
  samples :: "nat \<Rightarrow> real"
  pos :: nat

definition Math_random :: "random_source \<Rightarrow> real \<times> random_source" where
  "Math_random g = (samples g (pos g), g\<lparr>pos := Suc (pos g)\<rparr>)"

section \<open>The simulated execution of handleExecuteCode\<close>

text \<open>
  The body of \<open>lines.forEach\<close>: a line that is empty after \<open>trim\<close> or starts with \<open>#\<close>
  is skipped; otherwise the group of the print pattern is pushed when it matches, and then
  the group of the f-string pattern, with \<open>{value}\<close> and \<open>{angle}\<close> replaced by two
  fresh random integers, when that one matches.
\<close>

definition scan_line :: "jsstring list \<times> random_source \<Rightarrow> jsstring \<Rightarrow> jsstring list \<times> random_source" where
  "scan_line acc line =
     (let trimmedLine = js_trim line in
      if trimmedLine \<noteq> [] \<and> \<not> js_startsWith trimmedLine (js ''#'')
      then
        (let (output, g) = acc;
             output1 = (case printMatch trimmedLine of
                          Some m \<Rightarrow> output @ [m]
                        | None \<Rightarrow> output)
         in case fStringMatch trimmedLine of
              Some m \<Rightarrow>
                (let (r1, g1) = Math_random g;
                     outputLine1 = js_replace_all (js ''{value}'') (show_int \<lfloor>r1 * 1024\<rfloor>) m;
                     (r2, g2) = Math_random g1;
                     outputLine2 = js_replace_all (js ''{angle}'') (show_int \<lfloor>r2 * 180\<rfloor>) outputLine1
                 in (output1 @ [outputLine2], g2))
            | None \<Rightarrow> (output1, g))
      else acc)"

definition led_on_marker :: jsstring where
  "led_on_marker = [55357, 56481] @ js '' LED encendido''"

definition led_off_marker :: jsstring where
  "led_off_marker = [55357, 56481] @ js '' LED apagado''"

definition sleep_marker :: jsstring where
  "sleep_marker = [9201, 65039] @ js '' Esperando...''"

definition loop_marker :: jsstring where
  "loop_marker = [55357, 56580] @ js '' Bucle infinito iniciado''"

text \<open>The canned lines, decided by \<open>code.includes\<close> on the whole text of the code.\<close>

definition canned_lines :: "jsstring \<Rightarrow> jsstring list" where
  "canned_lines code =
     (if js_includes code (js ''led.on()'') \<or> js_includes code (js ''led.value(1)'')
      then [led_on_marker] else [])
     @ (if js_includes code (js ''led.off()'') \<or> js_includes code (js ''led.value(0)'')
        then [led_off_marker] else [])
     @ (if js_includes code (js ''time.sleep'') then [sleep_marker] else [])
     @ (if js_includes code (js ''while True'') then [loop_marker] else [])"

definition simulate_output :: "jsstring \<Rightarrow> random_source \<Rightarrow> jsstring list \<times> random_source" where
  "simulate_output code g =
     (let (output, g') = foldl scan_line ([], g) (js_split_lines code)
      in (output @ canned_lines code, g'))"

section \<open>The device catalog\<close>

datatype pin = PinNumber nat | PinName jsstring

record pins =
  digital :: "pin list"
  analog :: "pin list"
  pwm :: "pin list option"

record device =
  dev_id :: jsstring
  dev_name :: jsstring
  dev_type :: jsstring
  dev_port :: jsstring
  dev_status :: jsstring
  dev_capabilities :: "jsstring list"
  dev_pins :: pins

definition arduino_uno :: device where
  "arduino_uno =
     \<lparr>dev_id = js ''arduino-uno'', dev_name = js ''Arduino UNO'', dev_type = js ''arduino'',
      dev_port = js ''COM3'', dev_status = js ''available'',
      dev_capabilities = [js ''digital'', js ''analog'', js ''pwm'', js ''serial''],
      dev_pins = \<lparr>digital = map PinNumber [2, 3, 4, 5, 6, 7, 8, 9, 10, 11, 12, 13],
                  analog = map PinName [js ''A0'', js ''A1'', js ''A2'', js ''A3'', js ''A4'', js ''A5''],
                  pwm = Some (map PinNumber [3, 5, 6, 9, 10, 11])\<rparr>\<rparr>"

definition microbit_v2 :: device where
  "microbit_v2 =
     \<lparr>dev_id = js ''microbit-v2'', dev_name = js ''micro:bit V2'', dev_type = js ''microbit'',
      dev_port = js ''COM4'', dev_status = js ''available'',
      dev_capabilities = [js ''led'', js ''button'', js ''accelerometer'', js ''compass'',
                          js ''temperature''],
      dev_pins = \<lparr>digital = map PinNumber [0, 1, 2, 3, 4, 5, 6, 7, 8, 9, 10, 11, 12, 13, 14, 15,
                                             16, 19, 20],
                  analog = map PinNumber [0, 1, 2, 3, 4, 10],
                  pwm = None\<rparr>\<rparr>"

definition raspberry_pico :: device where
  "raspberry_pico =
     \<lparr>dev_id = js ''raspberry-pico'', dev_name = js ''Raspberry Pi Pico'', dev_type = js ''pico'',
      dev_port = js ''COM5'', dev_status = js ''available'',
      dev_capabilities = [js ''digital'', js ''analog'', js ''pwm'', js ''i2c'', js ''spi''],
      dev_pins = \<lparr>digital = map PinNumber [0, 1, 2, 3, 4, 5, 6, 7, 8, 9, 10, 11, 12, 13, 14, 15,
                                             16, 17, 18, 19, 20, 21, 22, 26, 27, 28],
                  analog = map PinNumber [26, 27, 28, 29],
                  pwm = None\<rparr>\<rparr>"

text \<open>The own properties of the object literal \<open>SIMULATED_DEVICES\<close>, in insertion order.\<close>

definition SIMULATED_DEVICES :: "(jsstring \<times> device) list" where
  "SIMULATED_DEVICES =
     [(js ''arduino-uno'', arduino_uno), (js ''microbit-v2'', microbit_v2),
      (js ''raspberry-pico'', raspberry_pico)]"

text \<open>
  \<open>SIMULATED_DEVICES[deviceId]\<close> is a property read on an object literal, so a name that
  is not an own property is looked up in \<open>Object.prototype\<close>, whose properties are
  functions (and, for \<open>__proto__\<close>, an object): all of them truthy, none with an own
  enumerable property, none with a \<open>port\<close>, \<open>capabilities\<close> or \<open>pins\<close>.
\<close>

definition object_prototype_properties :: "jsstring list" where
  "object_prototype_properties =
     [js ''constructor'', js ''__defineGetter__'', js ''__defineSetter__'', js ''hasOwnProperty'',
      js ''__lookupGetter__'', js ''__lookupSetter__'', js ''isPrototypeOf'',
      js ''propertyIsEnumerable'', js ''toString'', js ''valueOf'', js ''__proto__'',
      js ''toLocaleString'']"

datatype property = OwnDevice device | Inherited

definition get_property :: "jsstring \<Rightarrow> property option" where
  "get_property deviceId =
     (case map_of SIMULATED_DEVICES deviceId of
        Some d \<Rightarrow> Some (OwnDevice d)
      | None \<Rightarrow> if deviceId \<in> set object_prototype_properties then Some Inherited else None)"

text \<open>The device catalog proper: the three descriptors.\<close>

definition in_catalog :: "jsstring \<Rightarrow> bool" where
  "in_catalog deviceId = (map_of SIMULATED_DEVICES deviceId \<noteq> None)"

fun spread_of :: "property \<Rightarrow> device option" where
  "spread_of (OwnDevice d) = Some d"
| "spread_of Inherited = None"

text \<open>\<open>peripheralId || device.port\<close>: an absent or empty \<open>peripheralId\<close> is falsy.\<close>

definition or_port :: "jsstring option \<Rightarrow> property \<Rightarrow> jsstring option" where
  "or_port peripheralId dev =
     (case peripheralId of
        Some p \<Rightarrow> if p \<noteq> [] then Some p else map_option dev_port (spread_of dev)
      | None \<Rightarrow> map_option dev_port (spread_of dev))"

section \<open>Messages, frames and sessions\<close>

text \<open>
  A client message after \<open>JSON.parse\<close>, with the fields the handlers read. The fields
  have the types the protocol gives them: \<open>type\<close>, \<open>deviceId\<close> and \<open>code\<close> are strings,
  \<open>peripheralId\<close> and \<open>baudrate\<close> may be absent, \<open>data\<close> is an object given by its
  fields.
\<close>

type_synonym json_object = "(jsstring \<times> jsstring) list"

record message =
  m_type :: jsstring
  m_deviceId :: jsstring
  m_peripheralId :: "jsstring option"
  m_baudrate :: "int option"
  m_data :: json_object
  m_code :: jsstring

text \<open>What arrives on the socket: a text \<open>JSON.parse\<close> rejects (with its error message), or a message.\<close>

datatype raw_message = Unparsable jsstring | Parsed message

text \<open>
  The value stored in \<open>connection.devices\<close>: the own enumerable properties of the catalog
  entry copied by the spread (none when the entry was inherited), and the four fields the
  handler adds. Times are milliseconds since the epoch.
\<close>

record session =
  s_spread :: "device option"
  s_peripheralId :: "jsstring option"
  s_baudrate :: int
  s_connectedAt :: int
  s_status :: jsstring

datatype sensor_data =
    ArduinoData int int int nat nat nat
  | MicrobitData real real real int nat nat
  | PicoData int int int nat nat nat nat
  | NoSensorData

text \<open>
  The two payloads of a \<open>deviceData\<close> frame: the telemetry of the interval timer and the
  reply of \<open>sendData\<close> (the data sent, a timestamp and the status \<open>processed\<close>).
\<close>

datatype device_data =
    Telemetry sensor_data int
  | Processed json_object int

text \<open>
  The frames passed to \<open>ws.send\<close>. The canned texts of \<open>codeInjected\<close>, \<open>codeOutput\<close>
  and \<open>deviceAction\<close> are constants of the source and are not repeated here.
\<close>

datatype frame =
    Welcome nat
  | ErrorFrame jsstring "jsstring option"
  | DeviceList "(device \<times> bool) list" nat
  | DeviceConnected jsstring "jsstring option" int "jsstring list option" "pins option"
  | DeviceDisconnected jsstring
  | DeviceData jsstring device_data
  | DeviceStatus jsstring jsstring int int
  | Pong int
  | CodeUploaded jsstring nat int
  | CodeExecuted jsstring jsstring int
  | CodeInjected jsstring
  | CodeOutput jsstring
  | DeviceActionBlink jsstring
  | DeviceActionPattern jsstring

text \<open>
  A connection object: the frames passed to \<open>ws.send\<close> of its socket so far, in call
  order, and the fields \<open>ip\<close>, \<open>connected\<close> and \<open>devices\<close>. What the socket library does
  with a frame sent after the socket closed is outside the program.
\<close>

record connection =
  ws_sent :: "frame list"
  ip :: jsstring
  is_connected :: bool
  devices :: "jsstring \<rightharpoonup> session"

section \<open>Timers and the state of the server\<close>

text \<open>
  The function passed to \<open>setTimeout\<close> or \<open>setInterval\<close>, with the variables it closes
  over. The first argument stands both for \<open>clientId\<close> and for the \<open>connection\<close> object
  the closure captured: the object created for that client, which the closure keeps
  after \<open>activeConnections.delete\<close>.
\<close>

datatype callback =
    ConnectDelay nat jsstring "jsstring option" int property
  | SendDataDelay nat jsstring json_object
  | UploadDelay nat jsstring jsstring
  | AutoExecute nat jsstring jsstring
  | ExecuteDelay nat jsstring "jsstring list"
  | PicoInject nat jsstring
  | PicoOutput nat jsstring
  | ArduinoBlink nat jsstring
  | MicrobitPattern nat jsstring
  | DeviceDataInterval nat jsstring

record timer =
  delay :: real
  repeats :: bool
  callback :: callback

text \<open>
  \<open>connections\<close> holds every connection object by the client id it was created for;
  \<open>activeConnections\<close> is the set of keys of the source's map of that name, so that
  \<open>activeConnections.get(clientId)\<close> is the object of a registered key and a closure
  still reaches the object of a deleted one. A timer handle is its index in \<open>timers\<close>; a
  timeout that fired and a cleared interval leave \<open>None\<close>. \<open>now\<close> is the clock read by
  \<open>new Date()\<close> and \<open>Date.now()\<close>. Console logging and the statistics interval, which
  only logs, are left out.
\<close>

record state =
  connectionId :: nat
  activeConnections :: "nat set"
  connections :: "nat \<rightharpoonup> connection"
  timers :: "timer option list"
  now :: int
  random :: random_source

definition initial_state :: "int \<Rightarrow> random_source \<Rightarrow> state" where
  "initial_state t g =
     \<lparr>connectionId = 0, activeConnections = {}, connections = Map.empty, timers = [],
      now = t, random = g\<rparr>"

definition activeConnections_get :: "state \<Rightarrow> nat \<Rightarrow> connection option" where
  "activeConnections_get s clientId =
     (if clientId \<in> activeConnections s then connections s clientId else None)"

definition ws_send :: "nat \<Rightarrow> frame \<Rightarrow> state \<Rightarrow> state" where
  "ws_send c f s =
     (case connections s c of
        None \<Rightarrow> s
      | Some conn \<Rightarrow> s\<lparr>connections := (connections s)(c \<mapsto> conn\<lparr>ws_sent := ws_sent conn @ [f]\<rparr>)\<rparr>)"

definition setTimeout :: "callback \<Rightarrow> real \<Rightarrow> state \<Rightarrow> state" where
  "setTimeout cb d s = s\<lparr>timers := timers s @ [Some \<lparr>delay = d, repeats = False, callback = cb\<rparr>]\<rparr>"

definition setInterval :: "callback \<Rightarrow> real \<Rightarrow> state \<Rightarrow> state" where
  "setInterval cb d s = s\<lparr>timers := timers s @ [Some \<lparr>delay = d, repeats = True, callback = cb\<rparr>]\<rparr>"

definition clearInterval :: "nat \<Rightarrow> state \<Rightarrow> state" where
  "clearInterval h s = s\<lparr>timers := (timers s)[h := None]\<rparr>"

text \<open>One call of \<open>Math.random()\<close> on the state.\<close>

definition next_random :: "state \<Rightarrow> real \<times> state" where
  "next_random s = (let (r, g) = Math_random (random s) in (r, s\<lparr>random := g\<rparr>))"

section \<open>The handlers\<close>

definition not_found_message :: "jsstring \<Rightarrow> jsstring" where
  "not_found_message deviceId = js ''Dispositivo no encontrado: '' @ deviceId"

definition already_connected_message :: "jsstring \<Rightarrow> jsstring" where
  "already_connected_message deviceId =
     js ''Dispositivo '' @ deviceId @ js '' ya est'' @ [225] @ js '' conectado''"

definition not_connected_message :: "jsstring \<Rightarrow> jsstring" where
  "not_connected_message deviceId =
     js ''Dispositivo '' @ deviceId @ js '' no est'' @ [225] @ js '' conectado''"

definition unsupported_message :: "jsstring \<Rightarrow> jsstring" where
  "unsupported_message t = js ''Tipo de mensaje no soportado: '' @ t"

definition invalid_format_message :: jsstring where
  "invalid_format_message = js ''Formato de mensaje inv'' @ [225] @ js ''lido''"

definition handleGetDeviceList :: "nat \<Rightarrow> state \<Rightarrow> state" where
  "handleGetDeviceList clientId s =
     (case activeConnections_get s clientId of
        None \<Rightarrow> s
      | Some connection \<Rightarrow>
          (let devs = map (\<lambda>(k, device). (device, devices connection (dev_id device) \<noteq> None))
                          SIMULATED_DEVICES
           in ws_send clientId (DeviceList devs (length devs)) s))"

definition handleConnectDevice :: "nat \<Rightarrow> message \<Rightarrow> state \<Rightarrow> state" where
  "handleConnectDevice clientId message s =
     (case activeConnections_get s clientId of
        None \<Rightarrow> s
      | Some connection \<Rightarrow>
          (let deviceId = m_deviceId message;
               peripheralId = m_peripheralId message;
               baudrate = (case m_baudrate message of None \<Rightarrow> 9600 | Some b \<Rightarrow> b)
           in case get_property deviceId of
                None \<Rightarrow> ws_send clientId (ErrorFrame (not_found_message deviceId) None) s
              | Some device \<Rightarrow>
                  (let (r, s1) = next_random s
                   in setTimeout (ConnectDelay clientId deviceId peripheralId baudrate device)
                        (r * 1000 + 500) s1)))"

definition handleDisconnectDevice :: "nat \<Rightarrow> message \<Rightarrow> state \<Rightarrow> state" where
  "handleDisconnectDevice clientId message s =
     (case activeConnections_get s clientId of
        None \<Rightarrow> s
      | Some connection \<Rightarrow>
          (let deviceId = m_deviceId message
           in if devices connection deviceId = None
              then ws_send clientId (ErrorFrame (not_connected_message deviceId) None) s
              else ws_send clientId (DeviceDisconnected deviceId)
                     (s\<lparr>connections := (connections s)(clientId \<mapsto>
                          connection\<lparr>devices := (devices connection)(deviceId := None)\<rparr>)\<rparr>)))"

definition handleSendData :: "nat \<Rightarrow> message \<Rightarrow> state \<Rightarrow> state" where
  "handleSendData clientId message s =
     (case activeConnections_get s clientId of
        None \<Rightarrow> s
      | Some connection \<Rightarrow>
          (let deviceId = m_deviceId message
           in if devices connection deviceId = None
              then ws_send clientId (ErrorFrame (not_connected_message deviceId) None) s
              else (let (r, s1) = next_random s
                    in setTimeout (SendDataDelay clientId deviceId (m_data message))
                         (r * 200 + 100) s1)))"

definition handleGetDeviceStatus :: "nat \<Rightarrow> message \<Rightarrow> state \<Rightarrow> state" where
  "handleGetDeviceStatus clientId message s =
     (case activeConnections_get s clientId of
        None \<Rightarrow> s
      | Some connection \<Rightarrow>
          (let deviceId = m_deviceId message
           in case devices connection deviceId of
                None \<Rightarrow> ws_send clientId (ErrorFrame (not_connected_message deviceId) None) s
              | Some device \<Rightarrow>
                  ws_send clientId
                    (DeviceStatus deviceId (s_status device) (s_connectedAt device)
                       (now s - s_connectedAt device)) s))"

definition handlePing :: "nat \<Rightarrow> state \<Rightarrow> state" where
  "handlePing clientId s =
     (case activeConnections_get s clientId of
        None \<Rightarrow> s
      | Some connection \<Rightarrow> ws_send clientId (Pong (now s)) s)"

definition handleUploadCode :: "nat \<Rightarrow> message \<Rightarrow> state \<Rightarrow> state" where
  "handleUploadCode clientId message s =
     (case activeConnections_get s clientId of
        None \<Rightarrow> s
      | Some connection \<Rightarrow>
          (let deviceId = m_deviceId message; code = m_code message
           in if devices connection deviceId = None
              then ws_send clientId (ErrorFrame (not_connected_message deviceId) None) s
              else (let (r, s1) = next_random s
                    in setTimeout (UploadDelay clientId deviceId code) (r * 2000 + 1000) s1)))"

definition handleExecuteCode :: "nat \<Rightarrow> message \<Rightarrow> state \<Rightarrow> state" where
  "handleExecuteCode clientId message s =
     (case activeConnections_get s clientId of
        None \<Rightarrow> s
      | Some connection \<Rightarrow>
          (let deviceId = m_deviceId message; code = m_code message
           in if devices connection deviceId = None
              then ws_send clientId (ErrorFrame (not_connected_message deviceId) None) s
              else (let (output, g) = simulate_output code (random s);
                        (r, s1) = next_random (s\<lparr>random := g\<rparr>)
                    in setTimeout (ExecuteDelay clientId deviceId output) (r * 1000 + 500) s1)))"

definition handleDeviceSpecificActions :: "nat \<Rightarrow> jsstring \<Rightarrow> state \<Rightarrow> state" where
  "handleDeviceSpecificActions clientId deviceId s =
     (case activeConnections_get s clientId of
        None \<Rightarrow> s
      | Some connection \<Rightarrow>
          if deviceId = js ''raspberry-pico'' then setTimeout (PicoInject clientId deviceId) 1000 s
          else if deviceId = js ''arduino-uno'' then setTimeout (ArduinoBlink clientId deviceId) 1000 s
          else if deviceId = js ''microbit-v2'' then setTimeout (MicrobitPattern clientId deviceId) 1000 s
          else s)"

definition startDeviceDataSimulation :: "nat \<Rightarrow> jsstring \<Rightarrow> state \<Rightarrow> state" where
  "startDeviceDataSimulation clientId deviceId s =
     (case activeConnections_get s clientId of
        None \<Rightarrow> s
      | Some connection \<Rightarrow>
          (case devices connection deviceId of
             None \<Rightarrow> s
           | Some device \<Rightarrow>
               (let (r, s1) = next_random s
                in setInterval (DeviceDataInterval clientId deviceId) (1000 + r * 2000) s1)))"

text \<open>\<open>Math.random() > x ? 1 : 0\<close>.\<close>

definition above :: "real \<Rightarrow> real \<Rightarrow> nat" where
  "above r x = (if r > x then 1 else 0)"

text \<open>
  The \<open>switch (deviceId)\<close> of the interval callback; the calls of \<open>Math.random\<close> in
  source order. The products and the floors are taken over the real numbers, where the
  source computes in IEEE doubles: a value such as \<open>(r - 0.5) * 2000\<close> may differ from
  the source's in its last digits.
\<close>

definition sensorData :: "jsstring \<Rightarrow> random_source \<Rightarrow> sensor_data \<times> random_source" where
  "sensorData deviceId g0 =
     (if deviceId = js ''arduino-uno'' then
        (let (a0, g1) = Math_random g0; (a1, g2) = Math_random g1; (a2, g3) = Math_random g2;
             (d2, g4) = Math_random g3; (d3, g5) = Math_random g4; (d13, g6) = Math_random g5
         in (ArduinoData \<lfloor>a0 * 1024\<rfloor> \<lfloor>a1 * 1024\<rfloor> \<lfloor>a2 * 1024\<rfloor>
               (above d2 0.5) (above d3 0.5) (above d13 0.5), g6))
      else if deviceId = js ''microbit-v2'' then
        (let (x, g1) = Math_random g0; (y, g2) = Math_random g1; (z, g3) = Math_random g2;
             (t, g4) = Math_random g3; (a, g5) = Math_random g4; (b, g6) = Math_random g5
         in (MicrobitData ((x - 0.5) * 2000) ((y - 0.5) * 2000) ((z - 0.5) * 2000)
               \<lfloor>t * 30 + 15\<rfloor> (above a 0.8) (above b 0.8), g6))
      else if deviceId = js ''raspberry-pico'' then
        (let (a0, g1) = Math_random g0; (a1, g2) = Math_random g1; (a2, g3) = Math_random g2;
             (d0, g4) = Math_random g3; (d1, g5) = Math_random g4; (d2, g6) = Math_random g5
         in (PicoData \<lfloor>a0 * 4096\<rfloor> \<lfloor>a1 * 4096\<rfloor> \<lfloor>a2 * 4096\<rfloor>
               (above d0 0.5) (above d1 0.5) (above d2 0.5) 1, g6))
      else (NoSensorData, g0))"

section \<open>The delayed callbacks\<close>

text \<open>The callback of \<open>handleConnectDevice\<close>, run when its delay has elapsed.\<close>

definition connect_delay_elapsed ::
  "nat \<Rightarrow> jsstring \<Rightarrow> jsstring option \<Rightarrow> int \<Rightarrow> property \<Rightarrow> state \<Rightarrow> state" where
  "connect_delay_elapsed clientId deviceId peripheralId baudrate device s =
     (case connections s clientId of
        None \<Rightarrow> s
      | Some connection \<Rightarrow>
          if devices connection deviceId \<noteq> None
          then ws_send clientId (ErrorFrame (already_connected_message deviceId) None) s
          else
            (let sess = \<lparr>s_spread = spread_of device,
                         s_peripheralId = or_port peripheralId device,
                         s_baudrate = baudrate,
                         s_connectedAt = now s,
                         s_status = js ''connected''\<rparr>;
                 s1 = s\<lparr>connections := (connections s)(clientId \<mapsto>
                         connection\<lparr>devices := (devices connection)(deviceId \<mapsto> sess)\<rparr>)\<rparr>;
                 s2 = ws_send clientId
                        (DeviceConnected deviceId (or_port peripheralId device) baudrate
                           (map_option dev_capabilities (spread_of device))
                           (map_option dev_pins (spread_of device))) s1;
                 s3 = startDeviceDataSimulation clientId deviceId s2
             in handleDeviceSpecificActions clientId deviceId s3))"

text \<open>The callback of \<open>setInterval\<close> in \<open>startDeviceDataSimulation\<close>; \<open>interval\<close> is its own handle.\<close>

definition device_data_tick :: "nat \<Rightarrow> nat \<Rightarrow> jsstring \<Rightarrow> state \<Rightarrow> state" where
  "device_data_tick interval clientId deviceId s =
     (case connections s clientId of
        None \<Rightarrow> s
      | Some connection \<Rightarrow>
          if devices connection deviceId = None then clearInterval interval s
          else
            (let (sd, g) = sensorData deviceId (random s)
             in ws_send clientId (DeviceData deviceId (Telemetry sd (now s))) (s\<lparr>random := g\<rparr>)))"

fun run_callback :: "nat \<Rightarrow> callback \<Rightarrow> state \<Rightarrow> state" where
  "run_callback h (ConnectDelay clientId deviceId peripheralId baudrate device) s =
     connect_delay_elapsed clientId deviceId peripheralId baudrate device s"
| "run_callback h (SendDataDelay clientId deviceId d) s =
     ws_send clientId (DeviceData deviceId (Processed d (now s))) s"
| "run_callback h (UploadDelay clientId deviceId code) s =
     setTimeout (AutoExecute clientId deviceId code) 1000
       (ws_send clientId (CodeUploaded deviceId (length code) (now s)) s)"
| "run_callback h (AutoExecute clientId deviceId code) s =
     handleExecuteCode clientId
       \<lparr>m_type = js ''executeCode'', m_deviceId = deviceId, m_peripheralId = None,
        m_baudrate = None, m_data = [], m_code = code\<rparr> s"
| "run_callback h (ExecuteDelay clientId deviceId output) s =
     ws_send clientId (CodeExecuted deviceId (js_join_lines output) (now s)) s"
| "run_callback h (PicoInject clientId deviceId) s =
     setTimeout (PicoOutput clientId deviceId) 500 (ws_send clientId (CodeInjected deviceId) s)"
| "run_callback h (PicoOutput clientId deviceId) s = ws_send clientId (CodeOutput deviceId) s"
| "run_callback h (ArduinoBlink clientId deviceId) s = ws_send clientId (DeviceActionBlink deviceId) s"
| "run_callback h (MicrobitPattern clientId deviceId) s =
     ws_send clientId (DeviceActionPattern deviceId) s"
| "run_callback h (DeviceDataInterval clientId deviceId) s = device_data_tick h clientId deviceId s"

section \<open>The event loop\<close>

definition handleMessage :: "nat \<Rightarrow> message \<Rightarrow> state \<Rightarrow> state" where
  "handleMessage clientId message s =
     (case activeConnections_get s clientId of
        None \<Rightarrow> s
      | Some connection \<Rightarrow>
          if m_type message = js ''getDeviceList'' then handleGetDeviceList clientId s
          else if m_type message = js ''connectDevice'' then handleConnectDevice clientId message s
          else if m_type message = js ''disconnectDevice'' then handleDisconnectDevice clientId message s
          else if m_type message = js ''sendData'' then handleSendData clientId message s
          else if m_type message = js ''getDeviceStatus'' then handleGetDeviceStatus clientId message s
          else if m_type message = js ''ping'' then handlePing clientId s
          else if m_type message = js ''uploadCode'' then handleUploadCode clientId message s
          else if m_type message = js ''executeCode'' then handleExecuteCode clientId message s
          else ws_send clientId (ErrorFrame (unsupported_message (m_type message)) None) s)"

text \<open>
  What the event loop delivers: a new socket (with its remote address), a text on the
  socket of a client, the close or the error of that socket, the firing of a timer, and
  the passing of time. The order and the times of the events are the environment's.
\<close>

datatype event =
    Connection jsstring
  | Message nat raw_message
  | Close nat
  | SocketError nat
  | TimerFires nat
  | TimePasses nat

fun step :: "event \<Rightarrow> state \<Rightarrow> state" where
  "step (Connection clientIP) s =
     (let clientId = connectionId s + 1
      in s\<lparr>connectionId := clientId,
           activeConnections := insert clientId (activeConnections s),
           connections := (connections s)(clientId \<mapsto>
              \<lparr>ws_sent = [Welcome clientId], ip = clientIP, is_connected = True,
               devices = Map.empty\<rparr>)\<rparr>)"
| "step (Message clientId (Unparsable err)) s =
     ws_send clientId (ErrorFrame invalid_format_message (Some err)) s"
| "step (Message clientId (Parsed message)) s = handleMessage clientId message s"
| "step (Close clientId) s = s\<lparr>activeConnections := activeConnections s - {clientId}\<rparr>"
| "step (SocketError clientId) s = s\<lparr>activeConnections := activeConnections s - {clientId}\<rparr>"
| "step (TimerFires h) s =
     (if h < length (timers s)
      then (case timers s ! h of
              None \<Rightarrow> s
            | Some t \<Rightarrow>
                run_callback h (callback t)
                  (if repeats t then s else s\<lparr>timers := (timers s)[h := None]\<rparr>))
      else s)"
| "step (TimePasses ms) s = s\<lparr>now := now s + int ms\<rparr>"

fun run :: "event list \<Rightarrow> state \<Rightarrow> state" where
  "run [] s = s"
| "run (e # es) s = run es (step e s)"

section \<open>Notions used to state the properties\<close>

text \<open>The case labels of the \<open>switch\<close> in \<open>handleMessage\<close>.\<close>

definition recognized_types :: "jsstring list" where
  "recognized_types =
     [js ''getDeviceList'', js ''connectDevice'', js ''disconnectDevice'', js ''sendData'',
      js ''getDeviceStatus'', js ''ping'', js ''uploadCode'', js ''executeCode'']"

text \<open>The device is attached: the client is registered and its connection has a session for the device.\<close>

definition attached :: "state \<Rightarrow> nat \<Rightarrow> jsstring \<Rightarrow> bool" where
  "attached s c d =
     (c \<in> activeConnections s \<and> (\<exists>conn. connections s c = Some conn \<and> devices conn d \<noteq> None))"

text \<open>The handle \<open>h\<close> is a timeout that has not fired yet, with callback \<open>cb\<close> and delay \<open>dl\<close>.\<close>

definition pending :: "state \<Rightarrow> nat \<Rightarrow> callback \<Rightarrow> real \<Rightarrow> bool" where
  "pending s h cb dl =
     (h < length (timers s) \<and> timers s ! h = Some \<lparr>delay = dl, repeats = False, callback = cb\<rparr>)"

text \<open>The handle \<open>h\<close> is an interval that has not been cleared, with callback \<open>cb\<close> and period \<open>dl\<close>.\<close>

definition armed :: "state \<Rightarrow> nat \<Rightarrow> callback \<Rightarrow> real \<Rightarrow> bool" where
  "armed s h cb dl =
     (h < length (timers s) \<and> timers s ! h = Some \<lparr>delay = dl, repeats = True, callback = cb\<rparr>)"

text \<open>Between \<open>s\<close> and \<open>s'\<close> exactly the frames \<open>fs\<close> were sent on the socket of client \<open>c\<close>, and its sessions did not change.\<close>

definition sends :: "nat \<Rightarrow> frame list \<Rightarrow> state \<Rightarrow> state \<Rightarrow> bool" where
  "sends c fs s s' =
     (\<exists>conn. connections s c = Some conn
        \<and> connections s' c = Some (conn\<lparr>ws_sent := ws_sent conn @ fs\<rparr>))"

text \<open>The condition under which \<open>lines.forEach\<close> skips a line.\<close>

definition skipped :: "jsstring \<Rightarrow> bool" where
  "skipped line = (js_trim line = [] \<or> js_startsWith (js_trim line) (js ''#''))"

text \<open>The lines that the scan reads and that match one of the two patterns.\<close>

definition scanned :: "jsstring \<Rightarrow> bool" where
  "scanned line =
     (\<not> skipped line
      \<and> \<not> (printMatch (js_trim line) = None \<and> fStringMatch (js_trim line) = None))"

text \<open>The text \<open>print('hello')\<close>.\<close>

definition print_hello :: jsstring where
  "print_hello = js ''print('' @ [39] @ js ''hello'' @ [39] @ js '')''"

text \<open>A telemetry frame of the device.\<close>

fun telemetry_of :: "jsstring \<Rightarrow> frame \<Rightarrow> bool" where
  "telemetry_of d (DeviceData d' (Telemetry sd t)) = (d' = d)"
| "telemetry_of d f = False"

text \<open>The event is a \<open>disconnectDevice\<close> request of client \<open>c\<close> for device \<open>d\<close>.\<close>

definition is_disconnect :: "nat \<Rightarrow> jsstring \<Rightarrow> event \<Rightarrow> bool" where
  "is_disconnect c d e =
     (case e of
        Message c' (Parsed m) \<Rightarrow> c' = c \<and> m_type m = js ''disconnectDevice'' \<and> m_deviceId m = d
      | _ \<Rightarrow> False)"

text \<open>Client \<open>c\<close> has been issued its id and its connection object holds the session \<open>sess\<close> for device \<open>d\<close>.\<close>

definition has_session :: "state \<Rightarrow> nat \<Rightarrow> jsstring \<Rightarrow> session \<Rightarrow> bool" where
  "has_session s c d sess = (c \<le> connectionId s \<and> (\<exists>conn. connections s c = Some conn \<and> devices conn d = Some sess))"

text \<open>The handle \<open>h\<close> holds the timer \<open>t\<close>.\<close>

definition timer_at :: "state \<Rightarrow> nat \<Rightarrow> timer \<Rightarrow> bool" where
  "timer_at s h t = (h < length (timers s) \<and> timers s ! h = Some t)"

text \<open>The callback is the delayed completion of a \<open>connectDevice\<close> of client \<open>c\<close> for device \<open>d\<close>.\<close>

fun connect_callback_for :: "nat \<Rightarrow> jsstring \<Rightarrow> callback \<Rightarrow> bool" where
  "connect_callback_for c d (ConnectDelay c' d' p b dev) = (c' = c \<and> d' = d)"
| "connect_callback_for c d cb = False"

text \<open>The event is a \<open>connectDevice\<close> request of client \<open>c\<close> for device \<open>d\<close>.\<close>

definition is_connect_request :: "nat \<Rightarrow> jsstring \<Rightarrow> event \<Rightarrow> bool" where
  "is_connect_request c d e =
     (case e of
        Message c' (Parsed m) \<Rightarrow> c' = c \<and> m_type m = js ''connectDevice'' \<and> m_deviceId m = d
      | _ \<Rightarrow> False)"

text \<open>Client \<open>c\<close> has no session for device \<open>d\<close> and no delayed completion of a \<open>connectDevice\<close> for it is waiting.\<close>

definition detached :: "state \<Rightarrow> nat \<Rightarrow> jsstring \<Rightarrow> bool" where
  "detached s c d =
     (c \<le> connectionId s
      \<and> (\<exists>conn. connections s c = Some conn \<and> devices conn d = None)
      \<and> (\<forall>tm. Some tm \<in> set (timers s) \<longrightarrow> \<not> connect_callback_for c d (callback tm)))"

text \<open>The telemetry frames of device \<open>d\<close> sent so far on the socket of client \<open>c\<close>.\<close>

definition telemetry_frames :: "state \<Rightarrow> nat \<Rightarrow> jsstring \<Rightarrow> frame list" where
  "telemetry_frames s c d =
     (case connections s c of
        None \<Rightarrow> []
      | Some conn \<Rightarrow> filter (telemetry_of d) (ws_sent conn))"

text \<open>From \<open>s\<close> to \<open>s'\<close> the device stayed detached and no telemetry frame of it was sent.\<close>

definition quiet :: "nat \<Rightarrow> jsstring \<Rightarrow> state \<Rightarrow> state \<Rightarrow> bool" where
  "quiet c d s s' = (detached s' c d \<and> telemetry_frames s' c d = telemetry_frames s c d)"

text \<open>A delayed completion of \<open>connectDevice\<close> holds the catalog entry its device id was looked up to.\<close>

fun known_callback :: "callback \<Rightarrow> bool" where
  "known_callback (ConnectDelay c d p b dev) = (get_property d = Some dev)"
| "known_callback cb = True"

text \<open>What holds in every state the server reaches: a registered client has a connection object, a connection object belongs to an id already issued, a session exists only for a device id that passed the lookup, and so does a waiting connect completion.\<close>

definition wf_state :: "state \<Rightarrow> bool" where
  "wf_state s =
     ((\<forall>c. c \<in> activeConnections s \<longrightarrow> connections s c \<noteq> None)
      \<and> (\<forall>c conn. connections s c = Some conn \<longrightarrow>
             c \<le> connectionId s \<and> (\<forall>d. devices conn d \<noteq> None \<longrightarrow> get_property d \<noteq> None))
      \<and> (\<forall>tm. Some tm \<in> set (timers s) \<longrightarrow> known_callback (callback tm)))"

text \<open>The states the server reaches from its start.\<close>

definition reachable :: "state \<Rightarrow> bool" where
  "reachable s = (\<exists>evs t g. s = run evs (initial_state t g))"

text \<open>A \<open>deviceData\<close> frame of the device, telemetry or reply.\<close>

fun device_data_of :: "jsstring \<Rightarrow> frame \<Rightarrow> bool" where
  "device_data_of d (DeviceData d' x) = (d' = d)"
| "device_data_of d f = False"

text \<open>The callback is the delayed reply of a \<open>sendData\<close> of client \<open>c\<close> for device \<open>d\<close>.\<close>

fun reply_callback_for :: "nat \<Rightarrow> jsstring \<Rightarrow> callback \<Rightarrow> bool" where
  "reply_callback_for c d (SendDataDelay c' d' x) = (c' = c \<and> d' = d)"
| "reply_callback_for c d cb = False"

text \<open>No delayed reply of a \<open>sendData\<close> of client \<open>c\<close> for device \<open>d\<close> is waiting.\<close>

definition no_reply_waiting :: "state \<Rightarrow> nat \<Rightarrow> jsstring \<Rightarrow> bool" where
  "no_reply_waiting s c d =
     (\<forall>tm. Some tm \<in> set (timers s) \<longrightarrow> \<not> reply_callback_for c d (callback tm))"

text \<open>The device is detached and no reply for it is waiting.\<close>

definition silent_state :: "state \<Rightarrow> nat \<Rightarrow> jsstring \<Rightarrow> bool" where
  "silent_state s c d = (detached s c d \<and> no_reply_waiting s c d)"

text \<open>The \<open>deviceData\<close> frames of device \<open>d\<close> sent so far on the socket of client \<open>c\<close>.\<close>

definition device_data_frames :: "state \<Rightarrow> nat \<Rightarrow> jsstring \<Rightarrow> frame list" where
  "device_data_frames s c d =
     (case connections s c of
        None \<Rightarrow> []
      | Some conn \<Rightarrow> filter (device_data_of d) (ws_sent conn))"

text \<open>From \<open>s\<close> to \<open>s'\<close> the device stayed detached with no reply waiting, and no \<open>deviceData\<close> frame of it was sent.\<close>

definition silent :: "nat \<Rightarrow> jsstring \<Rightarrow> state \<Rightarrow> state \<Rightarrow> bool" where
  "silent c d s s' = (silent_state s' c d \<and> device_data_frames s' c d = device_data_frames s c d)"

text \<open>The counter of client ids and the keys of \<open>activeConnections\<close>.\<close>

definition registry :: "state \<Rightarrow> nat \<times> nat set" where
  "registry s = (connectionId s, activeConnections s)"

text \<open>The client is not registered, its connection object still holds the session of the device, and the interval \<open>h\<close> of that device is armed.\<close>

definition leaking :: "state \<Rightarrow> nat \<Rightarrow> jsstring \<Rightarrow> nat \<Rightarrow> real \<Rightarrow> session \<Rightarrow> bool" where
  "leaking s c d h dl sess =
     (c \<notin> activeConnections s \<and> has_session s c d sess
      \<and> timer_at s h \<lparr>delay = dl, repeats = True, callback = DeviceDataInterval c d\<rparr>)"

section \<open>Concrete scenarios\<close>

definition client_message :: "string \<Rightarrow> string \<Rightarrow> jsstring \<Rightarrow> message" where
  "client_message t d c =
     \<lparr>m_type = js t, m_deviceId = js d, m_peripheralId = None, m_baudrate = None, m_data = [],
      m_code = c\<rparr>"

text \<open>A random source whose second value is 1/4 and whose other values are 3/4.\<close>

definition example_random :: random_source where
  "example_random = \<lparr>samples = (\<lambda>n. if n = 1 then 1 / 4 else 3 / 4), pos = 0\<rparr>"

text \<open>One client has connected to a server started at time 0.\<close>

definition one_client :: state where
  "one_client = step (Connection (js ''127.0.0.1'')) (initial_state 0 example_random)"

text \<open>The client has attached the Arduino: its request, then the firing of the connect delay.\<close>

definition arduino_attached :: state where
  "arduino_attached =
     run [Message 1 (Parsed (client_message ''connectDevice'' ''arduino-uno'' [])), TimerFires 0]
       one_client"

text \<open>A program of three lines: an assignment, an indented \<open>print('hello')\<close> and \<open>led.on()\<close>.\<close>

definition example_code :: jsstring where
  "example_code = js ''x = 1'' @ [10] @ js ''  '' @ print_hello @ [10] @ js ''led.on()''"

text \<open>A program of two comment lines: \<open># print('x')\<close> and \<open># led.on()\<close>.\<close>

definition comment_code :: jsstring where
  "comment_code = js ''# print('' @ [39] @ js ''x'' @ [39] @ js '')'' @ [10] @ js ''# led.on()''"

section \<open>Evaluation of the definitions\<close>

lemmas handler_defs = handleMessage_def handleGetDeviceList_def handleConnectDevice_def handleDisconnectDevice_def
  handleSendData_def handleGetDeviceStatus_def handlePing_def handleUploadCode_def handleExecuteCode_def
  handleDeviceSpecificActions_def startDeviceDataSimulation_def connect_delay_elapsed_def device_data_tick_def
  activeConnections_get_def ws_send_def setTimeout_def setInterval_def clearInterval_def next_random_def Math_random_def

lemmas scenario_defs = initial_state_def client_message_def example_random_def js_def get_property_def
  SIMULATED_DEVICES_def object_prototype_properties_def Let_def or_port_def sensorData_def above_def

lemmas regex_defs = printMatch_def fStringMatch_def match_here_def is_quote_def is_line_terminator_def
   is_white_space_def is_trimmed_def js_trim_def

lemma next_random_eq:
  "next_random s = (samples (random s) (pos (random s)), s\<lparr>random := (random s)\<lparr>pos := Suc (pos (random s))\<rparr>\<rparr>)"
  by (simp add: next_random_def Math_random_def)

section \<open>What every step preserves\<close>

lemma has_session_updates [simp]:
  "has_session (s\<lparr>random := g\<rparr>) c d sess = has_session s c d sess"
  "has_session (s\<lparr>timers := ts\<rparr>) c d sess = has_session s c d sess"
  "has_session (s\<lparr>now := t\<rparr>) c d sess = has_session s c d sess"
  "has_session (s\<lparr>activeConnections := a\<rparr>) c d sess = has_session s c d sess"
  "has_session (setTimeout cb dl s) c d sess = has_session s c d sess"
  "has_session (setInterval cb dl s) c d sess = has_session s c d sess"
  "has_session (clearInterval h s) c d sess = has_session s c d sess"
  "has_session (ws_send c' f s) c d sess = has_session s c d sess"
  by (auto simp add: has_session_def setTimeout_def setInterval_def clearInterval_def ws_send_def split: option.splits)

lemma keeps_handleGetDeviceList: "has_session (handleGetDeviceList c' s) c d sess = has_session s c d sess"
  by (simp add: handleGetDeviceList_def Let_def split: option.splits)

lemma keeps_handleConnectDevice: "has_session (handleConnectDevice c' m s) c d sess = has_session s c d sess"
  by (simp add: handleConnectDevice_def Let_def next_random_eq split: option.splits)

lemma keeps_handleSendData: "has_session (handleSendData c' m s) c d sess = has_session s c d sess"
  by (simp add: handleSendData_def Let_def next_random_eq split: option.splits)

lemma keeps_handleGetDeviceStatus: "has_session (handleGetDeviceStatus c' m s) c d sess = has_session s c d sess"
  by (simp add: handleGetDeviceStatus_def Let_def split: option.splits)

lemma keeps_handlePing: "has_session (handlePing c' s) c d sess = has_session s c d sess"
  by (simp add: handlePing_def split: option.splits)

lemma keeps_handleUploadCode: "has_session (handleUploadCode c' m s) c d sess = has_session s c d sess"
  by (simp add: handleUploadCode_def Let_def next_random_eq split: option.splits)

lemma keeps_handleExecuteCode: "has_session (handleExecuteCode c' m s) c d sess = has_session s c d sess"
  by (simp add: handleExecuteCode_def Let_def next_random_eq split: option.splits prod.splits)

lemma keeps_handleDeviceSpecificActions: "has_session (handleDeviceSpecificActions c' d' s) c d sess = has_session s c d sess"
  by (simp add: handleDeviceSpecificActions_def split: option.splits)

lemma keeps_startDeviceDataSimulation: "has_session (startDeviceDataSimulation c' d' s) c d sess = has_session s c d sess"
  by (simp add: startDeviceDataSimulation_def Let_def next_random_eq split: option.splits)

lemma keeps_handleDisconnectDevice:
  "has_session s c d sess \<Longrightarrow> \<not> (c' = c \<and> m_deviceId m = d) \<Longrightarrow> has_session (handleDisconnectDevice c' m s) c d sess"
  by (auto simp add: handleDisconnectDevice_def Let_def activeConnections_get_def has_session_def ws_send_def split: option.splits if_splits)

lemma has_session_attach:
  "has_session s c d sess \<Longrightarrow> connections s c' = Some x \<Longrightarrow> devices x d' = None
     \<Longrightarrow> has_session (s\<lparr>connections := (connections s)(c' \<mapsto> x\<lparr>devices := (devices x)(d' \<mapsto> sess')\<rparr>)\<rparr>) c d sess"
  by (auto simp add: has_session_def)

lemma keeps_connect_delay_elapsed:
  "has_session s c d sess \<Longrightarrow> has_session (connect_delay_elapsed c' d' p b dev s) c d sess"
  by (simp add: connect_delay_elapsed_def Let_def keeps_handleDeviceSpecificActions keeps_startDeviceDataSimulation
      has_session_attach split: option.splits)

lemma keeps_device_data_tick:
  "has_session (device_data_tick h c' d' s) c d sess = has_session s c d sess"
  by (simp add: device_data_tick_def Let_def split: option.splits prod.splits)

lemmas keeps = keeps_handleGetDeviceList keeps_handleConnectDevice keeps_handleSendData keeps_handleGetDeviceStatus
  keeps_handlePing keeps_handleUploadCode keeps_handleExecuteCode keeps_handleDeviceSpecificActions
  keeps_startDeviceDataSimulation keeps_handleDisconnectDevice keeps_connect_delay_elapsed keeps_device_data_tick

lemma callback_keeps_session:
  "has_session s c d sess \<Longrightarrow> has_session (run_callback h cb s) c d sess"
  by (cases cb) (simp_all add: keeps)

lemma message_keeps_session:
  "has_session s c d sess \<Longrightarrow> \<not> (c' = c \<and> m_type m = js ''disconnectDevice'' \<and> m_deviceId m = d)
     \<Longrightarrow> has_session (handleMessage c' m s) c d sess"
  by (simp add: handleMessage_def keeps split: option.splits)

lemma step_keeps_session:
  assumes "has_session s c d sess" and "\<not> is_disconnect c d e"
  shows "has_session (step e s) c d sess"
proof (cases e)
  case (Connection ip)
  with assms show ?thesis by (auto simp add: has_session_def Let_def)
next
  case (Message c' raw)
  with assms show ?thesis
    by (cases raw) (simp_all add: is_disconnect_def message_keeps_session)
next
  case (TimerFires h)
  with assms show ?thesis by (simp add: callback_keeps_session split: option.splits)
qed (use assms in simp_all)

lemma timer_at_updates [simp]:
  "timer_at (s\<lparr>random := g\<rparr>) h t = timer_at s h t"
  "timer_at (s\<lparr>now := n\<rparr>) h t = timer_at s h t"
  "timer_at (s\<lparr>activeConnections := a\<rparr>) h t = timer_at s h t"
  "timer_at (s\<lparr>connections := cs\<rparr>) h t = timer_at s h t"
  "timer_at (s\<lparr>connectionId := i\<rparr>) h t = timer_at s h t"
  "timer_at (ws_send c f s) h t = timer_at s h t"
  by (auto simp add: timer_at_def ws_send_def split: option.splits)

lemma timer_at_setTimeout [simp]:
  "timer_at s h t \<Longrightarrow> timer_at (setTimeout cb dl s) h t"
  "timer_at s h t \<Longrightarrow> timer_at (setInterval cb dl s) h t"
  by (auto simp add: timer_at_def setTimeout_def setInterval_def nth_append)

lemma timer_at_clear [simp]:
  "h' \<noteq> h \<Longrightarrow> timer_at (clearInterval h' s) h t = timer_at s h t"
  "h' \<noteq> h \<Longrightarrow> timer_at (s\<lparr>timers := (timers s)[h' := None]\<rparr>) h t = timer_at s h t"
  by (auto simp add: timer_at_def clearInterval_def)

lemma timer_kept_handleExecuteCode:
  "timer_at s h t \<Longrightarrow> timer_at (handleExecuteCode c m s) h t"
  by (simp add: handleExecuteCode_def Let_def next_random_eq split: option.splits prod.splits)

lemma timer_kept_handleDeviceSpecificActions:
  "timer_at s h t \<Longrightarrow> timer_at (handleDeviceSpecificActions c d s) h t"
  by (simp add: handleDeviceSpecificActions_def split: option.splits)

lemma timer_kept_startDeviceDataSimulation:
  "timer_at s h t \<Longrightarrow> timer_at (startDeviceDataSimulation c d s) h t"
  by (simp add: startDeviceDataSimulation_def Let_def next_random_eq split: option.splits)

lemma timer_kept_callback:
  "timer_at s h t \<Longrightarrow> h' \<noteq> h \<Longrightarrow> timer_at (run_callback h' cb s) h t"
  by (cases cb)
    (simp_all add: connect_delay_elapsed_def device_data_tick_def Let_def timer_kept_handleExecuteCode
      timer_kept_handleDeviceSpecificActions timer_kept_startDeviceDataSimulation
      split: option.splits prod.splits)

lemma timer_kept_message:
  "timer_at s h t \<Longrightarrow> timer_at (handleMessage c m s) h t"
  by (simp add: handleMessage_def handleGetDeviceList_def handleConnectDevice_def
      handleDisconnectDevice_def handleSendData_def handleGetDeviceStatus_def handlePing_def
      handleUploadCode_def timer_kept_handleExecuteCode Let_def next_random_eq split: option.splits)

lemma timer_kept_step:
  assumes "timer_at s h t" and "e \<noteq> TimerFires h"
  shows "timer_at (step e s) h t"
proof (cases e)
  case (Message c raw)
  with assms show ?thesis by (cases raw) (simp_all add: timer_kept_message)
next
  case (TimerFires h')
  with assms show ?thesis by (simp add: timer_kept_callback split: option.splits)
qed (use assms in \<open>simp_all add: Let_def\<close>)

lemma timer_kept_run:
  "timer_at s h t \<Longrightarrow> TimerFires h \<notin> set evs \<Longrightarrow> timer_at (run evs s) h t"
  by (induction evs arbitrary: s) (auto simp add: timer_kept_step)

lemma session_kept_run:
  "has_session s c d sess \<Longrightarrow> \<forall>e \<in> set evs. \<not> is_disconnect c d e \<Longrightarrow> has_session (run evs s) c d sess"
  by (induction evs arbitrary: s) (auto simp add: step_keeps_session)

lemma quiet_refl: "detached s c d \<Longrightarrow> quiet c d s s"
  by (simp add: quiet_def)

lemma detached_updates [simp]:
  "detached (s\<lparr>random := g\<rparr>) c d = detached s c d"
  "detached (s\<lparr>now := n\<rparr>) c d = detached s c d"
  "detached (s\<lparr>activeConnections := a\<rparr>) c d = detached s c d"
  "detached (ws_send c' f s) c d = detached s c d"
  "detached (setTimeout cb dl s) c d = (detached s c d \<and> \<not> connect_callback_for c d cb)"
  "detached (setInterval cb dl s) c d = (detached s c d \<and> \<not> connect_callback_for c d cb)"
  by (auto simp add: detached_def ws_send_def setTimeout_def setInterval_def split: option.splits)

lemma detached_clear [simp]:
  "detached s c d \<Longrightarrow> detached (clearInterval h s) c d"
  "detached s c d \<Longrightarrow> detached (s\<lparr>timers := (timers s)[h := None]\<rparr>) c d"
  by (auto simp add: detached_def clearInterval_def dest!: set_update_subset_insert [THEN subsetD])

lemma telemetry_frames_updates [simp]:
  "telemetry_frames (s\<lparr>random := g\<rparr>) c d = telemetry_frames s c d"
  "telemetry_frames (s\<lparr>now := n\<rparr>) c d = telemetry_frames s c d"
  "telemetry_frames (s\<lparr>timers := ts\<rparr>) c d = telemetry_frames s c d"
  "telemetry_frames (s\<lparr>activeConnections := a\<rparr>) c d = telemetry_frames s c d"
  "telemetry_frames (setTimeout cb dl s) c d = telemetry_frames s c d"
  "telemetry_frames (setInterval cb dl s) c d = telemetry_frames s c d"
  "telemetry_frames (clearInterval h s) c d = telemetry_frames s c d"
  by (auto simp add: telemetry_frames_def setTimeout_def setInterval_def clearInterval_def)

lemma telemetry_frames_ws_send [simp]:
  "\<not> telemetry_of d f \<Longrightarrow> telemetry_frames (ws_send c' f s) c d = telemetry_frames s c d"
  "c' \<noteq> c \<Longrightarrow> telemetry_frames (ws_send c' f s) c d = telemetry_frames s c d"
  by (auto simp add: telemetry_frames_def ws_send_def split: option.splits)

lemma quiet_handleExecuteCode:
  "detached s c d \<Longrightarrow> quiet c d s (handleExecuteCode c' m s)"
  by (simp add: quiet_def handleExecuteCode_def Let_def next_random_eq split: option.splits prod.splits)

lemma quiet_handleDeviceSpecificActions:
  "detached s c d \<Longrightarrow> quiet c d s (handleDeviceSpecificActions c' d' s)"
  by (simp add: quiet_def handleDeviceSpecificActions_def split: option.splits)

lemma quiet_startDeviceDataSimulation:
  "detached s c d \<Longrightarrow> quiet c d s (startDeviceDataSimulation c' d' s)"
  by (simp add: quiet_def startDeviceDataSimulation_def Let_def next_random_eq split: option.splits)

lemma quiet_device_data_tick:
  "detached s c d \<Longrightarrow> quiet c d s (device_data_tick h c' d' s)"
  by (auto simp add: quiet_def device_data_tick_def Let_def detached_def
      telemetry_frames_def ws_send_def clearInterval_def
      split: option.splits prod.splits dest!: set_update_subset_insert [THEN subsetD])

lemmas quiet_parts =
  quiet_handleExecuteCode [unfolded quiet_def, THEN conjunct1]
  quiet_handleExecuteCode [unfolded quiet_def, THEN conjunct2]
  quiet_handleDeviceSpecificActions [unfolded quiet_def, THEN conjunct1]
  quiet_handleDeviceSpecificActions [unfolded quiet_def, THEN conjunct2]
  quiet_startDeviceDataSimulation [unfolded quiet_def, THEN conjunct1]
  quiet_startDeviceDataSimulation [unfolded quiet_def, THEN conjunct2]
  quiet_device_data_tick [unfolded quiet_def, THEN conjunct1]
  quiet_device_data_tick [unfolded quiet_def, THEN conjunct2]

lemma detached_attach_other:
  "detached s c d \<Longrightarrow> connections s c' = Some x \<Longrightarrow> \<not> (c' = c \<and> d' = d)
     \<Longrightarrow> detached (s\<lparr>connections := (connections s)(c' \<mapsto> x\<lparr>devices := (devices x)(d' \<mapsto> sess)\<rparr>)\<rparr>) c d"
  by (auto simp add: detached_def)

lemma telemetry_frames_devices:
  "connections s c' = Some x
     \<Longrightarrow> telemetry_frames (s\<lparr>connections := (connections s)(c' \<mapsto> x\<lparr>devices := dv\<rparr>)\<rparr>) c d
         = telemetry_frames s c d"
  by (auto simp add: telemetry_frames_def)

lemma detached_detach:
  "detached s c d \<Longrightarrow> connections s c' = Some x
     \<Longrightarrow> detached (s\<lparr>connections := (connections s)(c' \<mapsto> x\<lparr>devices := (devices x)(d' := None)\<rparr>)\<rparr>) c d"
  by (auto simp add: detached_def)

lemma quiet_connect_delay_elapsed:
  "detached s c d \<Longrightarrow> \<not> (c' = c \<and> d' = d) \<Longrightarrow> quiet c d s (connect_delay_elapsed c' d' p b dev s)"
  by (simp add: quiet_def connect_delay_elapsed_def Let_def quiet_parts detached_attach_other
      telemetry_frames_devices split: option.splits)

lemma quiet_callback:
  assumes "detached s c d" and "\<not> connect_callback_for c d cb"
  shows "quiet c d s (run_callback h cb s)"
  using assms
  by (cases cb) (simp_all add: quiet_connect_delay_elapsed quiet_handleExecuteCode quiet_device_data_tick, simp_all add: quiet_def)

lemma quiet_handleGetDeviceList:
  "detached s c d \<Longrightarrow> quiet c d s (handleGetDeviceList c' s)"
  by (simp add: quiet_def handleGetDeviceList_def Let_def split: option.splits)

lemma quiet_handleConnectDevice:
  "detached s c d \<Longrightarrow> \<not> (c' = c \<and> m_deviceId m = d) \<Longrightarrow> quiet c d s (handleConnectDevice c' m s)"
  by (simp add: quiet_def handleConnectDevice_def Let_def next_random_eq split: option.splits)

lemma quiet_handleDisconnectDevice:
  "detached s c d \<Longrightarrow> quiet c d s (handleDisconnectDevice c' m s)"
  by (simp add: quiet_def handleDisconnectDevice_def Let_def activeConnections_get_def
      detached_detach telemetry_frames_devices split: option.splits)

lemma quiet_handleSendData:
  "detached s c d \<Longrightarrow> quiet c d s (handleSendData c' m s)"
  by (simp add: quiet_def handleSendData_def Let_def next_random_eq split: option.splits)

lemma quiet_handleGetDeviceStatus:
  "detached s c d \<Longrightarrow> quiet c d s (handleGetDeviceStatus c' m s)"
  by (simp add: quiet_def handleGetDeviceStatus_def Let_def split: option.splits)

lemma quiet_handlePing:
  "detached s c d \<Longrightarrow> quiet c d s (handlePing c' s)"
  by (simp add: quiet_def handlePing_def split: option.splits)

lemma quiet_handleUploadCode:
  "detached s c d \<Longrightarrow> quiet c d s (handleUploadCode c' m s)"
  by (simp add: quiet_def handleUploadCode_def Let_def next_random_eq split: option.splits)

lemma quiet_message:
  assumes "detached s c d" and "\<not> (c' = c \<and> m_type m = js ''connectDevice'' \<and> m_deviceId m = d)"
  shows "quiet c d s (handleMessage c' m s)"
  using assms
  by (simp add: handleMessage_def quiet_handleGetDeviceList quiet_handleConnectDevice
      quiet_handleDisconnectDevice quiet_handleSendData quiet_handleGetDeviceStatus quiet_handlePing
      quiet_handleUploadCode quiet_handleExecuteCode quiet_refl split: option.splits)
    (simp add: quiet_def)

lemma timer_in_set: "h < length ts \<Longrightarrow> ts ! h = Some t \<Longrightarrow> Some t \<in> set ts"
  by (metis nth_mem)

lemma quiet_step:
  assumes "detached s c d" and "\<not> is_connect_request c d e"
  shows "quiet c d s (step e s)"
proof (cases e)
  case (Connection ip)
  with assms show ?thesis
    by (auto simp add: quiet_def detached_def telemetry_frames_def Let_def)
next
  case (Message c' raw)
  with assms show ?thesis
    by (cases raw) (simp_all add: is_connect_request_def quiet_message, simp add: quiet_def)
next
  case (TimerFires h)
  show ?thesis
  proof (cases "h < length (timers s) \<and> timers s ! h \<noteq> None")
    case False
    with TimerFires assms show ?thesis by (auto simp add: quiet_def)
  next
    case True
    then obtain t where t: "h < length (timers s)" "timers s ! h = Some t" by auto
    then have "Some t \<in> set (timers s)" by (rule timer_in_set)
    with assms have nc: "\<not> connect_callback_for c d (callback t)" by (auto simp add: detached_def)
    have d1: "detached (s\<lparr>timers := (timers s)[h := None]\<rparr>) c d" using assms by simp
    have "quiet c d (s\<lparr>timers := (timers s)[h := None]\<rparr>) (run_callback h (callback t) (s\<lparr>timers := (timers s)[h := None]\<rparr>))"
      using d1 nc by (rule quiet_callback)
    moreover have "quiet c d s (run_callback h (callback t) s)"
      using assms(1) nc by (rule quiet_callback)
    ultimately show ?thesis using TimerFires t by (simp add: quiet_def)
  qed
qed (use assms in \<open>simp_all add: quiet_def\<close>)

lemma quiet_run:
  "detached s c d \<Longrightarrow> \<forall>e \<in> set evs. \<not> is_connect_request c d e \<Longrightarrow> quiet c d s (run evs s)"
proof (induction evs arbitrary: s)
  case Nil
  then show ?case by (simp add: quiet_def)
next
  case (Cons e evs)
  then have q: "quiet c d s (step e s)" by (simp add: quiet_step)
  then have "detached (step e s) c d" by (simp add: quiet_def)
  with Cons have "quiet c d (step e s) (run evs (step e s))" by simp
  with q show ?case by (simp add: quiet_def)
qed

lemma wf_ws_send [simp]: "wf_state (ws_send c' f s) = wf_state s"
proof (cases "connections s c'")
  case None
  then show ?thesis by (simp add: ws_send_def)
next
  case (Some x)
  have dom: "(connections (ws_send c' f s) c = None) = (connections s c = None)" for c
    using Some by (simp add: ws_send_def)
  have dev: "(\<exists>conn. connections (ws_send c' f s) c = Some conn \<and> devices conn d \<noteq> None)
      = (\<exists>conn. connections s c = Some conn \<and> devices conn d \<noteq> None)" for c d
    using Some by (auto simp add: ws_send_def)
  have rest: "activeConnections (ws_send c' f s) = activeConnections s"
    "connectionId (ws_send c' f s) = connectionId s" "timers (ws_send c' f s) = timers s"
    using Some by (simp_all add: ws_send_def)
  have "wf_state t =
     ((\<forall>c. c \<in> activeConnections t \<longrightarrow> connections t c \<noteq> None)
      \<and> (\<forall>c. connections t c \<noteq> None \<longrightarrow> c \<le> connectionId t)
      \<and> (\<forall>c d. (\<exists>conn. connections t c = Some conn \<and> devices conn d \<noteq> None) \<longrightarrow> get_property d \<noteq> None)
      \<and> (\<forall>tm. Some tm \<in> set (timers t) \<longrightarrow> known_callback (callback tm)))" for t
    unfolding wf_state_def by blast
  then show ?thesis by (simp only: dom dev rest)
qed

lemma wf_updates [simp]:
  "wf_state (s\<lparr>random := g\<rparr>) = wf_state s"
  "wf_state (s\<lparr>now := n\<rparr>) = wf_state s"
  "wf_state (setTimeout cb dl s) = (wf_state s \<and> known_callback cb)"
  "wf_state (setInterval cb dl s) = (wf_state s \<and> known_callback cb)"
  by (auto simp add: wf_state_def setTimeout_def setInterval_def)

lemma wf_clear [simp]:
  "wf_state s \<Longrightarrow> wf_state (clearInterval h s)"
  "wf_state s \<Longrightarrow> wf_state (s\<lparr>timers := (timers s)[h := None]\<rparr>)"
  "wf_state s \<Longrightarrow> wf_state (s\<lparr>activeConnections := activeConnections s - {c}\<rparr>)"
  by (auto simp add: wf_state_def clearInterval_def dest!: set_update_subset_insert [THEN subsetD])

lemma wf_attach:
  "wf_state s \<Longrightarrow> connections s c = Some x \<Longrightarrow> get_property d \<noteq> None
     \<Longrightarrow> wf_state (s\<lparr>connections := (connections s)(c \<mapsto> x\<lparr>devices := (devices x)(d \<mapsto> sess)\<rparr>)\<rparr>)"
  by (auto simp add: wf_state_def)

lemma wf_detach:
  "wf_state s \<Longrightarrow> connections s c = Some x
     \<Longrightarrow> wf_state (s\<lparr>connections := (connections s)(c \<mapsto> x\<lparr>devices := (devices x)(d := None)\<rparr>)\<rparr>)"
  by (auto simp add: wf_state_def)

lemma wf_handleExecuteCode: "wf_state s \<Longrightarrow> wf_state (handleExecuteCode c m s)"
  by (simp add: handleExecuteCode_def Let_def next_random_eq split: option.splits prod.splits)

lemma wf_handleDeviceSpecificActions: "wf_state s \<Longrightarrow> wf_state (handleDeviceSpecificActions c d s)"
  by (simp add: handleDeviceSpecificActions_def split: option.splits)

lemma wf_startDeviceDataSimulation: "wf_state s \<Longrightarrow> wf_state (startDeviceDataSimulation c d s)"
  by (simp add: startDeviceDataSimulation_def Let_def next_random_eq split: option.splits)

lemma wf_connect_delay_elapsed:
  "wf_state s \<Longrightarrow> get_property d = Some dev \<Longrightarrow> wf_state (connect_delay_elapsed c d p b dev s)"
  by (simp add: connect_delay_elapsed_def Let_def wf_handleDeviceSpecificActions
      wf_startDeviceDataSimulation wf_attach split: option.splits)

lemma wf_device_data_tick: "wf_state s \<Longrightarrow> wf_state (device_data_tick h c d s)"
  by (simp add: device_data_tick_def Let_def split: option.splits prod.splits)

lemma wf_callback: "wf_state s \<Longrightarrow> known_callback cb \<Longrightarrow> wf_state (run_callback h cb s)"
  by (cases cb) (simp_all add: wf_connect_delay_elapsed wf_handleExecuteCode wf_device_data_tick)

lemma wf_message: "wf_state s \<Longrightarrow> wf_state (handleMessage c m s)"
  by (simp add: handleMessage_def handleGetDeviceList_def handleConnectDevice_def
      handleDisconnectDevice_def handleSendData_def handleGetDeviceStatus_def handlePing_def
      handleUploadCode_def wf_handleExecuteCode Let_def next_random_eq activeConnections_get_def
      wf_detach split: option.splits)

lemma wf_step:
  assumes "wf_state s"
  shows "wf_state (step e s)"
proof (cases e)
  case (Connection ip)
  with assms show ?thesis by (fastforce simp add: wf_state_def Let_def)
next
  case (Message c raw)
  with assms show ?thesis by (cases raw) (simp_all add: wf_message)
next
  case (TimerFires h)
  show ?thesis
  proof (cases "h < length (timers s) \<and> timers s ! h \<noteq> None")
    case False
    with TimerFires assms show ?thesis by auto
  next
    case True
    then obtain t where t: "h < length (timers s)" "timers s ! h = Some t" by auto
    then have "Some t \<in> set (timers s)" by (rule timer_in_set)
    with assms have "known_callback (callback t)" by (simp add: wf_state_def)
    with assms TimerFires t show ?thesis by (simp add: wf_callback)
  qed
qed (use assms in simp_all)

lemma wf_run: "wf_state s \<Longrightarrow> wf_state (run evs s)"
  by (induction evs arbitrary: s) (simp_all add: wf_step)

lemma wf_initial: "wf_state (initial_state t g)"
  by (simp add: wf_state_def initial_state_def)

lemma reachable_wf: "reachable s \<Longrightarrow> wf_state s"
  by (auto simp add: reachable_def wf_run wf_initial)

lemma no_reply_waiting_updates [simp]:
  "no_reply_waiting (s\<lparr>random := g\<rparr>) c d = no_reply_waiting s c d"
  "no_reply_waiting (s\<lparr>now := n\<rparr>) c d = no_reply_waiting s c d"
  "no_reply_waiting (s\<lparr>activeConnections := a\<rparr>) c d = no_reply_waiting s c d"
  "no_reply_waiting (s\<lparr>connections := cs\<rparr>) c d = no_reply_waiting s c d"
  "no_reply_waiting (s\<lparr>connectionId := i\<rparr>) c d = no_reply_waiting s c d"
  by (simp_all add: no_reply_waiting_def)

lemma no_reply_waiting_ws_send [simp]:
  "no_reply_waiting (ws_send c' f s) c d = no_reply_waiting s c d"
  by (simp add: no_reply_waiting_def ws_send_def split: option.splits)

lemma no_reply_waiting_setTimeout [simp]:
  "no_reply_waiting (setTimeout cb dl s) c d = (no_reply_waiting s c d \<and> \<not> reply_callback_for c d cb)"
  "no_reply_waiting (setInterval cb dl s) c d = (no_reply_waiting s c d \<and> \<not> reply_callback_for c d cb)"
  by (auto simp add: no_reply_waiting_def setTimeout_def setInterval_def)

lemma some_in_cleared: "Some tm \<in> set (xs[h := None]) \<Longrightarrow> Some tm \<in> set xs"
  using set_update_subset_insert [of xs h None] by auto

lemma no_reply_waiting_clear [simp]:
  "no_reply_waiting s c d \<Longrightarrow> no_reply_waiting (clearInterval h s) c d"
  "no_reply_waiting s c d \<Longrightarrow> no_reply_waiting (s\<lparr>timers := (timers s)[h := None]\<rparr>) c d"
  unfolding no_reply_waiting_def clearInterval_def using some_in_cleared by fastforce+

lemma silent_state_updates [simp]:
  "silent_state (s\<lparr>random := g\<rparr>) c d = silent_state s c d"
  "silent_state (s\<lparr>now := n\<rparr>) c d = silent_state s c d"
  "silent_state (s\<lparr>activeConnections := a\<rparr>) c d = silent_state s c d"
  "silent_state (ws_send c' f s) c d = silent_state s c d"
  "silent_state (setTimeout cb dl s) c d
     = (silent_state s c d \<and> \<not> connect_callback_for c d cb \<and> \<not> reply_callback_for c d cb)"
  "silent_state (setInterval cb dl s) c d
     = (silent_state s c d \<and> \<not> connect_callback_for c d cb \<and> \<not> reply_callback_for c d cb)"
  by (auto simp add: silent_state_def)

lemma silent_state_clear [simp]:
  "silent_state s c d \<Longrightarrow> silent_state (clearInterval h s) c d"
  "silent_state s c d \<Longrightarrow> silent_state (s\<lparr>timers := (timers s)[h := None]\<rparr>) c d"
  by (simp_all add: silent_state_def)

lemma device_data_frames_updates [simp]:
  "device_data_frames (s\<lparr>random := g\<rparr>) c d = device_data_frames s c d"
  "device_data_frames (s\<lparr>now := n\<rparr>) c d = device_data_frames s c d"
  "device_data_frames (s\<lparr>timers := ts\<rparr>) c d = device_data_frames s c d"
  "device_data_frames (s\<lparr>activeConnections := a\<rparr>) c d = device_data_frames s c d"
  "device_data_frames (setTimeout cb dl s) c d = device_data_frames s c d"
  "device_data_frames (setInterval cb dl s) c d = device_data_frames s c d"
  "device_data_frames (clearInterval h s) c d = device_data_frames s c d"
  by (auto simp add: device_data_frames_def setTimeout_def setInterval_def clearInterval_def)

lemma device_data_frames_ws_send [simp]:
  "\<not> device_data_of d f \<Longrightarrow> device_data_frames (ws_send c' f s) c d = device_data_frames s c d"
  "c' \<noteq> c \<Longrightarrow> device_data_frames (ws_send c' f s) c d = device_data_frames s c d"
  by (auto simp add: device_data_frames_def ws_send_def split: option.splits)

lemma device_data_frames_ws_send_other [simp]:
  "\<not> (c' = c \<and> d' = d)
     \<Longrightarrow> device_data_frames (ws_send c' (DeviceData d' x) s) c d = device_data_frames s c d"
  by (cases "c' = c") simp_all

lemma device_data_frames_devices:
  "connections s c' = Some x
     \<Longrightarrow> device_data_frames (s\<lparr>connections := (connections s)(c' \<mapsto> x\<lparr>devices := dv\<rparr>)\<rparr>) c d
         = device_data_frames s c d"
  by (auto simp add: device_data_frames_def)

lemma silent_state_attach_other:
  "silent_state s c d \<Longrightarrow> connections s c' = Some x \<Longrightarrow> \<not> (c' = c \<and> d' = d)
     \<Longrightarrow> silent_state (s\<lparr>connections := (connections s)(c' \<mapsto> x\<lparr>devices := (devices x)(d' \<mapsto> sess)\<rparr>)\<rparr>) c d"
  by (simp add: silent_state_def detached_attach_other)

lemma silent_state_detach:
  "silent_state s c d \<Longrightarrow> connections s c' = Some x
     \<Longrightarrow> silent_state (s\<lparr>connections := (connections s)(c' \<mapsto> x\<lparr>devices := (devices x)(d' := None)\<rparr>)\<rparr>) c d"
  by (simp add: silent_state_def detached_detach)

lemma silent_handleExecuteCode:
  "silent_state s c d \<Longrightarrow> silent c d s (handleExecuteCode c' m s)"
  by (simp add: silent_def handleExecuteCode_def Let_def next_random_eq split: option.splits prod.splits)

lemma silent_handleDeviceSpecificActions:
  "silent_state s c d \<Longrightarrow> silent c d s (handleDeviceSpecificActions c' d' s)"
  by (simp add: silent_def handleDeviceSpecificActions_def split: option.splits)

lemma silent_startDeviceDataSimulation:
  "silent_state s c d \<Longrightarrow> silent c d s (startDeviceDataSimulation c' d' s)"
  by (simp add: silent_def startDeviceDataSimulation_def Let_def next_random_eq split: option.splits)

lemma silent_device_data_tick:
  "silent_state s c d \<Longrightarrow> silent c d s (device_data_tick h c' d' s)"
proof (cases "connections s c'")
  case None
  then show "silent_state s c d \<Longrightarrow> ?thesis" by (simp add: silent_def device_data_tick_def)
next
  case (Some conn)
  assume a: "silent_state s c d"
  show ?thesis
  proof (cases "devices conn d' = None")
    case True
    with Some a show ?thesis by (simp add: silent_def device_data_tick_def)
  next
    case False
    with Some a have "\<not> (c' = c \<and> d' = d)"
      by (auto simp add: silent_state_def detached_def)
    then have "c' \<noteq> c \<or> \<not> device_data_of d (DeviceData d' x)" for x by auto
    with Some False a show ?thesis
      by (auto simp add: silent_def device_data_tick_def Let_def split: prod.splits)
  qed
qed

lemmas silent_parts =
  silent_handleExecuteCode [unfolded silent_def, THEN conjunct1]
  silent_handleExecuteCode [unfolded silent_def, THEN conjunct2]
  silent_handleDeviceSpecificActions [unfolded silent_def, THEN conjunct1]
  silent_handleDeviceSpecificActions [unfolded silent_def, THEN conjunct2]
  silent_startDeviceDataSimulation [unfolded silent_def, THEN conjunct1]
  silent_startDeviceDataSimulation [unfolded silent_def, THEN conjunct2]

lemma silent_connect_delay_elapsed:
  "silent_state s c d \<Longrightarrow> \<not> (c' = c \<and> d' = d) \<Longrightarrow> silent c d s (connect_delay_elapsed c' d' p b dev s)"
  by (simp add: silent_def connect_delay_elapsed_def Let_def silent_parts silent_state_attach_other
      device_data_frames_devices split: option.splits)

lemma silent_callback:
  assumes "silent_state s c d" and "\<not> connect_callback_for c d cb" and "\<not> reply_callback_for c d cb"
  shows "silent c d s (run_callback h cb s)"
  using assms
  by (cases cb) (simp_all add: silent_connect_delay_elapsed silent_handleExecuteCode silent_device_data_tick, simp_all add: silent_def)

lemma silent_handleGetDeviceList:
  "silent_state s c d \<Longrightarrow> silent c d s (handleGetDeviceList c' s)"
  by (simp add: silent_def handleGetDeviceList_def Let_def split: option.splits)

lemma silent_handleConnectDevice:
  "silent_state s c d \<Longrightarrow> \<not> (c' = c \<and> m_deviceId m = d) \<Longrightarrow> silent c d s (handleConnectDevice c' m s)"
  by (simp add: silent_def handleConnectDevice_def Let_def next_random_eq split: option.splits)

lemma silent_handleDisconnectDevice:
  "silent_state s c d \<Longrightarrow> silent c d s (handleDisconnectDevice c' m s)"
  by (simp add: silent_def handleDisconnectDevice_def Let_def activeConnections_get_def
      silent_state_detach device_data_frames_devices split: option.splits)

lemma silent_handleSendData:
  "silent_state s c d \<Longrightarrow> silent c d s (handleSendData c' m s)"
proof (cases "activeConnections_get s c'")
  case None
  then show "silent_state s c d \<Longrightarrow> ?thesis" by (simp add: silent_def handleSendData_def)
next
  case (Some conn)
  assume a: "silent_state s c d"
  show ?thesis
  proof (cases "devices conn (m_deviceId m) = None")
    case True
    with Some a show ?thesis by (simp add: silent_def handleSendData_def)
  next
    case False
    with Some a have "\<not> (c' = c \<and> m_deviceId m = d)"
      by (auto simp add: silent_state_def detached_def activeConnections_get_def split: if_splits)
    with Some False a show ?thesis
      by (simp add: silent_def handleSendData_def next_random_eq Let_def)
  qed
qed

lemma silent_handleGetDeviceStatus:
  "silent_state s c d \<Longrightarrow> silent c d s (handleGetDeviceStatus c' m s)"
  by (simp add: silent_def handleGetDeviceStatus_def Let_def split: option.splits)

lemma silent_handlePing:
  "silent_state s c d \<Longrightarrow> silent c d s (handlePing c' s)"
  by (simp add: silent_def handlePing_def split: option.splits)

lemma silent_handleUploadCode:
  "silent_state s c d \<Longrightarrow> silent c d s (handleUploadCode c' m s)"
  by (simp add: silent_def handleUploadCode_def Let_def next_random_eq split: option.splits)

lemma silent_message:
  assumes "silent_state s c d" and "\<not> (c' = c \<and> m_type m = js ''connectDevice'' \<and> m_deviceId m = d)"
  shows "silent c d s (handleMessage c' m s)"
  using assms
  by (simp add: handleMessage_def silent_handleGetDeviceList silent_handleConnectDevice
      silent_handleDisconnectDevice silent_handleSendData silent_handleGetDeviceStatus silent_handlePing
      silent_handleUploadCode silent_handleExecuteCode split: option.splits)
    (simp add: silent_def)

lemma silent_step:
  assumes "silent_state s c d" and "\<not> is_connect_request c d e"
  shows "silent c d s (step e s)"
proof (cases e)
  case (Connection ip)
  with assms show ?thesis
    by (auto simp add: silent_def silent_state_def detached_def no_reply_waiting_def device_data_frames_def Let_def)
next
  case (Message c' raw)
  with assms show ?thesis
    by (cases raw) (simp_all add: is_connect_request_def silent_message, simp add: silent_def)
next
  case (TimerFires h)
  show ?thesis
  proof (cases "h < length (timers s) \<and> timers s ! h \<noteq> None")
    case False
    with TimerFires assms show ?thesis by (auto simp add: silent_def)
  next
    case True
    then obtain t where t: "h < length (timers s)" "timers s ! h = Some t" by auto
    then have "Some t \<in> set (timers s)" by (rule timer_in_set)
    with assms have nc: "\<not> connect_callback_for c d (callback t)" "\<not> reply_callback_for c d (callback t)"
      by (auto simp add: silent_state_def detached_def no_reply_waiting_def)
    have d1: "silent_state (s\<lparr>timers := (timers s)[h := None]\<rparr>) c d" using assms by simp
    have "silent c d (s\<lparr>timers := (timers s)[h := None]\<rparr>) (run_callback h (callback t) (s\<lparr>timers := (timers s)[h := None]\<rparr>))"
      using d1 nc by (rule silent_callback)
    moreover have "silent c d s (run_callback h (callback t) s)"
      using assms(1) nc by (rule silent_callback)
    ultimately show ?thesis using TimerFires t by (simp add: silent_def)
  qed
qed (use assms in \<open>simp_all add: silent_def\<close>)

lemma silent_run:
  "silent_state s c d \<Longrightarrow> \<forall>e \<in> set evs. \<not> is_connect_request c d e \<Longrightarrow> silent c d s (run evs s)"
proof (induction evs arbitrary: s)
  case Nil
  then show ?case by (simp add: silent_def)
next
  case (Cons e evs)
  then have q: "silent c d s (step e s)" by (simp add: silent_step)
  then have "silent_state (step e s) c d" by (simp add: silent_def)
  with Cons have "silent c d (step e s) (run evs (step e s))" by simp
  with q show ?case by (simp add: silent_def)
qed

section \<open>Runs and the scenarios evaluated\<close>

lemma run_append: "run (evs @ evs') s = run evs' (run evs s)"
  by (induction evs arbitrary: s) simp_all

lemma reachable_run: "reachable s \<Longrightarrow> reachable (run evs s)"
  unfolding reachable_def by (metis run_append)

lemma one_client_eq:
  "one_client =
     \<lparr>connectionId = 1, activeConnections = {1},
      connections = [1 \<mapsto> \<lparr>ws_sent = [Welcome 1], ip = js ''127.0.0.1'', is_connected = True,
                              devices = Map.empty\<rparr>],
      timers = [], now = 0, random = example_random\<rparr>"
  by (simp add: one_client_def initial_state_def)

lemma arduino_attached_eq:
  "arduino_attached =
     \<lparr>connectionId = 1, activeConnections = {1},
      connections =
        [1 \<mapsto> \<lparr>ws_sent = [Welcome 1,
                            DeviceConnected (js ''arduino-uno'') (Some (js ''COM3'')) 9600
                              (Some (dev_capabilities arduino_uno)) (Some (dev_pins arduino_uno))],
                 ip = js ''127.0.0.1'', is_connected = True,
                 devices = [js ''arduino-uno'' \<mapsto>
                              \<lparr>s_spread = Some arduino_uno, s_peripheralId = Some (js ''COM3''),
                               s_baudrate = 9600, s_connectedAt = 0, s_status = js ''connected''\<rparr>]\<rparr>],
      timers = [None,
                Some \<lparr>delay = 1500, repeats = True,
                      callback = DeviceDataInterval 1 (js ''arduino-uno'')\<rparr>,
                Some \<lparr>delay = 1000, repeats = False,
                      callback = ArduinoBlink 1 (js ''arduino-uno'')\<rparr>],
      now = 0, random = example_random\<lparr>pos := 2\<rparr>\<rparr>"
  by (simp add: arduino_attached_def one_client_eq handler_defs scenario_defs arduino_uno_def)

lemma reachable_arduino_attached: "reachable arduino_attached"
proof -
  have "arduino_attached =
          run [Connection (js ''127.0.0.1''),
               Message 1 (Parsed (client_message ''connectDevice'' ''arduino-uno'' [])),
               TimerFires 0] (initial_state 0 example_random)"
    by (simp add: arduino_attached_def one_client_def)
  then show ?thesis unfolding reachable_def by blast
qed

lemma arduino_telemetry_once:
  "run [TimerFires 1] arduino_attached =
     arduino_attached
       \<lparr>connections :=
          [1 \<mapsto> \<lparr>ws_sent = [Welcome 1,
                              DeviceConnected (js ''arduino-uno'') (Some (js ''COM3'')) 9600
                                (Some (dev_capabilities arduino_uno)) (Some (dev_pins arduino_uno)),
                              DeviceData (js ''arduino-uno'')
                                (Telemetry (ArduinoData 768 768 768 1 1 1) 0)],
                   ip = js ''127.0.0.1'', is_connected = True,
                   devices = [js ''arduino-uno'' \<mapsto>
                                \<lparr>s_spread = Some arduino_uno, s_peripheralId = Some (js ''COM3''),
                                 s_baudrate = 9600, s_connectedAt = 0, s_status = js ''connected''\<rparr>]\<rparr>],
        random := example_random\<lparr>pos := 8\<rparr>\<rparr>"
  by (simp add: arduino_attached_eq handler_defs scenario_defs)

lemma example_code_lines:
  "js_split_lines example_code = [js ''x = 1'', js ''  '' @ print_hello, js ''led.on()'']"
  by (simp add: example_code_def print_hello_def js_def)

section \<open>The interval of an attached device\<close>

lemma startDeviceDataSimulation_attached:
  assumes "attached s c d"
  shows "startDeviceDataSimulation c d s =
           s\<lparr>random := (random s)\<lparr>pos := Suc (pos (random s))\<rparr>,
             timers := timers s @
               [Some \<lparr>delay = 1000 + samples (random s) (pos (random s)) * 2000, repeats = True,
                      callback = DeviceDataInterval c d\<rparr>]\<rparr>"
  using assms
  by (auto simp add: attached_def startDeviceDataSimulation_def activeConnections_get_def
      next_random_eq setInterval_def Let_def)

lemma device_data_tick_present:
  assumes "connections s c = Some conn" and "devices conn d \<noteq> None"
  shows "device_data_tick h c d s =
           s\<lparr>random := snd (sensorData d (random s)),
             connections := (connections s)(c \<mapsto>
               conn\<lparr>ws_sent := ws_sent conn @
                 [DeviceData d (Telemetry (fst (sensorData d (random s))) (now s))]\<rparr>)\<rparr>"
  using assms
  by (auto simp add: device_data_tick_def ws_send_def Let_def split: prod.splits)

lemma connect_delay_starts_interval:
  assumes "c \<in> activeConnections s" and "connections s c = Some conn" and "devices conn d = None"
  shows "timer_at (connect_delay_elapsed c d p b dev s) (length (timers s))
           \<lparr>delay = 1000 + samples (random s) (pos (random s)) * 2000, repeats = True,
            callback = DeviceDataInterval c d\<rparr>"
proof -
  let ?s2 = "ws_send c
               (DeviceConnected d (or_port p dev) b (map_option dev_capabilities (spread_of dev))
                  (map_option dev_pins (spread_of dev)))
               (s\<lparr>connections := (connections s)(c \<mapsto>
                    conn\<lparr>devices := (devices conn)(d \<mapsto>
                      \<lparr>s_spread = spread_of dev, s_peripheralId = or_port p dev, s_baudrate = b,
                       s_connectedAt = now s, s_status = js ''connected''\<rparr>)\<rparr>)\<rparr>)"
  have "attached ?s2 c d"
    using assms by (simp add: attached_def ws_send_def)
  then have "timer_at (startDeviceDataSimulation c d ?s2) (length (timers s))
           \<lparr>delay = 1000 + samples (random s) (pos (random s)) * 2000, repeats = True,
            callback = DeviceDataInterval c d\<rparr>"
    using assms(2)
    by (simp add: startDeviceDataSimulation_attached timer_at_def ws_send_def)
  then have "timer_at (handleDeviceSpecificActions c d (startDeviceDataSimulation c d ?s2))
           (length (timers s))
           \<lparr>delay = 1000 + samples (random s) (pos (random s)) * 2000, repeats = True,
            callback = DeviceDataInterval c d\<rparr>"
    by (rule timer_kept_handleDeviceSpecificActions)
  then show ?thesis
    using assms(2,3) by (simp add: connect_delay_elapsed_def Let_def)
qed

section \<open>The line scan and the canned lines\<close>

lemma scan_line_skipped: "skipped l \<Longrightarrow> scan_line acc l = acc"
  by (auto simp add: scan_line_def skipped_def Let_def)

lemma scan_line_unmatched:
  "printMatch (js_trim l) = None \<and> fStringMatch (js_trim l) = None \<Longrightarrow> scan_line acc l = acc"
  by (cases acc) (simp add: scan_line_def Let_def)

lemma scan_line_unscanned: "\<not> scanned l \<Longrightarrow> scan_line acc l = acc"
  unfolding scanned_def using scan_line_skipped scan_line_unmatched by blast

lemma foldl_scan_line_skipped:
  "foldl scan_line acc (filter (\<lambda>l. \<not> skipped l) ls) = foldl scan_line acc ls"
  by (induction ls arbitrary: acc) (simp_all add: scan_line_skipped)

lemma foldl_scan_line_scanned:
  "foldl scan_line acc (filter scanned ls) = foldl scan_line acc ls"
  by (induction ls arbitrary: acc) (simp_all add: scan_line_unscanned)

lemma foldl_scan_line_all_skipped:
  "\<forall>l \<in> set ls. skipped l \<Longrightarrow> foldl scan_line acc ls = acc"
  by (induction ls arbitrary: acc) (simp_all add: scan_line_skipped)

lemma simulate_output_eq:
  "simulate_output code g =
     (fst (foldl scan_line ([], g) (js_split_lines code)) @ canned_lines code,
      snd (foldl scan_line ([], g) (js_split_lines code)))"
  by (simp add: simulate_output_def split: prod.splits)

section \<open>Requests for a device that is not in the catalog\<close>

text \<open>
  C1. The claim holds for a device id that the property read \<open>SIMULATED_DEVICES[deviceId]\<close>
  does not find. It fails for a name that the read finds in \<open>Object.prototype\<close>:
  \<open>constructor\<close> is not in the catalog, yet a \<open>connectDevice\<close> for it sends no error
  frame and starts the connect delay, and when the delay elapses a session for
  \<open>constructor\<close> is created and \<open>deviceConnected\<close> is sent.
\<close>

theorem inherited_name_accepted:
  "\<not> in_catalog (js ''constructor'')
   \<and> step (Message 1 (Parsed (client_message ''connectDevice'' ''constructor'' []))) one_client
       = one_client
           \<lparr>timers := [Some \<lparr>delay = 1250, repeats = False,
                              callback = ConnectDelay 1 (js ''constructor'') None 9600 Inherited\<rparr>],
            random := example_random\<lparr>pos := 1\<rparr>\<rparr>
   \<and> connections (run [Message 1 (Parsed (client_message ''connectDevice'' ''constructor'' [])),
                       TimerFires 0] one_client) 1
       = Some \<lparr>ws_sent = [Welcome 1, DeviceConnected (js ''constructor'') None 9600 None None],
                ip = js ''127.0.0.1'', is_connected = True,
                devices = [js ''constructor'' \<mapsto>
                             \<lparr>s_spread = None, s_peripheralId = None, s_baudrate = 9600,
                              s_connectedAt = 0, s_status = js ''connected''\<rparr>]\<rparr>"
  by (simp add: in_catalog_def one_client_eq handler_defs scenario_defs)

text \<open>
  The same five requests with a device id that the property read does not find: in a
  reachable state, each of them, sent by a registered client, sends one error frame and
  changes nothing else.
\<close>

lemma unknown_device_rejected:
  assumes "reachable s"
    and "c \<in> activeConnections s"
    and "connections s c = Some conn"
    and "get_property d = None"
    and "m_deviceId m = d"
    and "m_type m \<in> {js ''connectDevice'', js ''disconnectDevice'', js ''getDeviceStatus'',
                      js ''uploadCode'', js ''executeCode''}"
  shows "step (Message c (Parsed m)) s =
           s\<lparr>connections := (connections s)(c \<mapsto>
               conn\<lparr>ws_sent := ws_sent conn @
                 [ErrorFrame (if m_type m = js ''connectDevice'' then not_found_message d
                              else not_connected_message d) None]\<rparr>)\<rparr>"
proof -
  have "wf_state s" using assms(1) by (rule reachable_wf)
  then have "\<forall>d. devices conn d \<noteq> None \<longrightarrow> get_property d \<noteq> None"
    using assms(3) unfolding wf_state_def by blast
  with assms(4) have no: "devices conn d = None"
    by blast
  from assms(6) consider "m_type m = js ''connectDevice''" | "m_type m = js ''disconnectDevice''"
    | "m_type m = js ''getDeviceStatus''" | "m_type m = js ''uploadCode''"
    | "m_type m = js ''executeCode''"
    by auto
  then show ?thesis
  proof cases
    case 1
    with assms no show ?thesis
      by (simp add: handleMessage_def handleConnectDevice_def activeConnections_get_def ws_send_def js_def)
  next
    case 2
    with assms no show ?thesis
      by (simp add: handleMessage_def handleDisconnectDevice_def activeConnections_get_def ws_send_def js_def)
  next
    case 3
    with assms no show ?thesis
      by (simp add: handleMessage_def handleGetDeviceStatus_def activeConnections_get_def ws_send_def js_def)
  next
    case 4
    with assms no show ?thesis
      by (simp add: handleMessage_def handleUploadCode_def activeConnections_get_def ws_send_def js_def)
  next
    case 5
    with assms no show ?thesis
      by (simp add: handleMessage_def handleExecuteCode_def activeConnections_get_def ws_send_def js_def)
  qed
qed

section \<open>Connecting a device twice\<close>

lemma handleConnectDevice_known:
  assumes "c \<in> activeConnections s" and "connections s c = Some conn"
    and "get_property (m_deviceId m) = Some dev"
  shows "handleConnectDevice c m s =
           s\<lparr>random := (random s)\<lparr>pos := Suc (pos (random s))\<rparr>,
             timers := timers s @
               [Some \<lparr>delay = samples (random s) (pos (random s)) * 1000 + 500, repeats = False,
                      callback = ConnectDelay c (m_deviceId m) (m_peripheralId m)
                                   (case m_baudrate m of None \<Rightarrow> 9600 | Some b \<Rightarrow> b) dev\<rparr>]\<rparr>"
  using assms
  by (simp add: handleConnectDevice_def activeConnections_get_def next_random_eq setTimeout_def Let_def)

lemma connect_delay_elapsed_duplicate:
  assumes "connections s c = Some conn" and "devices conn d \<noteq> None"
  shows "connect_delay_elapsed c d p b dev s =
           s\<lparr>connections := (connections s)(c \<mapsto>
               conn\<lparr>ws_sent := ws_sent conn @ [ErrorFrame (already_connected_message d) None]\<rparr>)\<rparr>"
  using assms by (auto simp add: connect_delay_elapsed_def ws_send_def)

text \<open>
  C2. In a reachable state where a registered client already has a session for a device, a
  second \<open>connectDevice\<close> for that device sends nothing at once and leaves the sessions
  as they are; it only starts its delay. Whatever events arrive before the delay elapses,
  as long as none of them is a \<open>disconnectDevice\<close> of that client for that device, the
  session is still the same one (same \<open>connectedAt\<close>) when the delay elapses, and the
  elapsed delay does one thing: it sends the error frame "already connected" on the
  client's socket. The device maps and every other timer are unchanged.
\<close>

theorem duplicate_connect_rejected:
  assumes "reachable s"
    and "c \<in> activeConnections s"
    and "connections s c = Some conn"
    and "devices conn d = Some sess"
    and "m_type m = js ''connectDevice''"
    and "m_deviceId m = d"
    and "TimerFires (length (timers s)) \<notin> set evs"
    and "\<forall>e \<in> set evs. \<not> is_disconnect c d e"
  shows "let s1 = step (Message c (Parsed m)) s; s2 = run evs s1 in
           connections s1 = connections s
           \<and> (\<exists>dev dl. pending s1 (length (timers s))
                  (ConnectDelay c d (m_peripheralId m)
                     (case m_baudrate m of None \<Rightarrow> 9600 | Some b \<Rightarrow> b) dev) dl)
           \<and> (\<exists>conn2. connections s2 c = Some conn2
                  \<and> devices conn2 d = Some sess
                  \<and> step (TimerFires (length (timers s))) s2 =
                      s2\<lparr>timers := (timers s2)[length (timers s) := None],
                         connections := (connections s2)(c \<mapsto>
                           conn2\<lparr>ws_sent := ws_sent conn2 @
                             [ErrorFrame (already_connected_message d) None]\<rparr>)\<rparr>)"
proof -
  define s1 where "s1 = step (Message c (Parsed m)) s"
  define s2 where "s2 = run evs s1"
  define h where "h = length (timers s)"
  have wf: "wf_state s" using assms(1) by (rule reachable_wf)
  with assms(3,4) have le: "c \<le> connectionId s" and "get_property d \<noteq> None"
    by (auto simp add: wf_state_def)
  then obtain dev where dev: "get_property d = Some dev" by auto
  define t where "t = \<lparr>delay = samples (random s) (pos (random s)) * 1000 + 500, repeats = False,
      callback = ConnectDelay c d (m_peripheralId m)
                   (case m_baudrate m of None \<Rightarrow> 9600 | Some b \<Rightarrow> b) dev\<rparr>"
  have s1: "s1 = s\<lparr>random := (random s)\<lparr>pos := Suc (pos (random s))\<rparr>, timers := timers s @ [Some t]\<rparr>"
    using assms(2,3,5,6) dev handleConnectDevice_known [of c s conn m dev]
    by (simp add: s1_def handleMessage_def activeConnections_get_def js_def t_def)
  have c1: "connections s1 = connections s" by (simp add: s1)
  have t1: "timer_at s1 h t" by (simp add: s1 timer_at_def h_def)
  have p1: "pending s1 h (callback t) (delay t)"
    using t1 by (simp add: pending_def timer_at_def t_def)
  have hs1: "has_session s1 c d sess"
    using assms(3,4) le by (auto simp add: has_session_def s1)
  have t2: "timer_at s2 h t"
    unfolding s2_def using t1 assms(7) by (simp add: timer_kept_run h_def)
  have hs2: "has_session s2 c d sess"
    unfolding s2_def using hs1 assms(8) by (rule session_kept_run)
  then obtain conn2 where conn2: "connections s2 c = Some conn2" "devices conn2 d = Some sess"
    by (auto simp add: has_session_def)
  have "step (TimerFires h) s2 =
          connect_delay_elapsed c d (m_peripheralId m)
            (case m_baudrate m of None \<Rightarrow> 9600 | Some b \<Rightarrow> b) dev
            (s2\<lparr>timers := (timers s2)[h := None]\<rparr>)"
    using t2 by (simp add: timer_at_def t_def)
  also have "\<dots> = s2\<lparr>timers := (timers s2)[h := None],
                       connections := (connections s2)(c \<mapsto>
                         conn2\<lparr>ws_sent := ws_sent conn2 @
                           [ErrorFrame (already_connected_message d) None]\<rparr>)\<rparr>"
    using conn2 by (simp add: connect_delay_elapsed_duplicate)
  finally have fire: "step (TimerFires h) s2 =
      s2\<lparr>timers := (timers s2)[h := None],
         connections := (connections s2)(c \<mapsto>
           conn2\<lparr>ws_sent := ws_sent conn2 @ [ErrorFrame (already_connected_message d) None]\<rparr>)\<rparr>" .
  show ?thesis
    using c1 p1 conn2 fire
    unfolding Let_def s1_def [symmetric] s2_def [symmetric] h_def [symmetric]
    by (auto simp add: t_def)
qed

theorem duplicate_connect_rejected_witness:
  "reachable arduino_attached
   \<and> 1 \<in> activeConnections arduino_attached
   \<and> TimerFires (length (timers arduino_attached)) \<notin> set [TimePasses 700, TimerFires 1]
   \<and> \<not> is_disconnect 1 (js ''arduino-uno'') (TimePasses 700)
   \<and> \<not> is_disconnect 1 (js ''arduino-uno'') (TimerFires 1)
   \<and> (\<exists>conn2.
         connections (run [Message 1 (Parsed (client_message ''connectDevice'' ''arduino-uno'' [])),
                           TimePasses 700, TimerFires 1] arduino_attached) 1 = Some conn2
         \<and> map_option s_connectedAt (devices conn2 (js ''arduino-uno'')) = Some 0
         \<and> connections (run [Message 1 (Parsed (client_message ''connectDevice'' ''arduino-uno'' [])),
                             TimePasses 700, TimerFires 1, TimerFires 3] arduino_attached) 1
             = Some (conn2\<lparr>ws_sent := ws_sent conn2 @
                      [ErrorFrame (already_connected_message (js ''arduino-uno'')) None]\<rparr>))"
proof -
  let ?d = "js ''arduino-uno''"
  let ?m = "client_message ''connectDevice'' ''arduino-uno'' []"
  let ?sess = "\<lparr>s_spread = Some arduino_uno, s_peripheralId = Some (js ''COM3''),
                 s_baudrate = 9600, s_connectedAt = 0, s_status = js ''connected''\<rparr>"
  let ?conn = "\<lparr>ws_sent = [Welcome 1,
                            DeviceConnected (js ''arduino-uno'') (Some (js ''COM3'')) 9600
                              (Some (dev_capabilities arduino_uno)) (Some (dev_pins arduino_uno))],
                 ip = js ''127.0.0.1'', is_connected = True,
                 devices = [js ''arduino-uno'' \<mapsto> ?sess]\<rparr>"
  have h2: "1 \<in> activeConnections arduino_attached" by (simp add: arduino_attached_eq)
  have h3: "connections arduino_attached 1 = Some ?conn" by (simp add: arduino_attached_eq)
  have h4: "devices ?conn ?d = Some ?sess" by simp
  have h5: "m_type ?m = js ''connectDevice''" by (simp add: client_message_def)
  have h6: "m_deviceId ?m = ?d" by (simp add: client_message_def)
  have h7: "TimerFires (length (timers arduino_attached)) \<notin> set [TimePasses 700, TimerFires 1]"
    by (simp add: arduino_attached_eq)
  have h8: "\<forall>e \<in> set [TimePasses 700, TimerFires 1]. \<not> is_disconnect 1 ?d e"
    by (simp add: is_disconnect_def)
  have len: "length (timers arduino_attached) = 3" by (simp add: arduino_attached_eq)
  from duplicate_connect_rejected [OF reachable_arduino_attached h2 h3 h4 h5 h6 h7 h8]
  obtain conn2 where
    "connections (run [TimePasses 700, TimerFires 1] (step (Message 1 (Parsed ?m)) arduino_attached)) 1 = Some conn2"
    "devices conn2 ?d = Some ?sess"
    "step (TimerFires 3) (run [TimePasses 700, TimerFires 1] (step (Message 1 (Parsed ?m)) arduino_attached)) =
       (run [TimePasses 700, TimerFires 1] (step (Message 1 (Parsed ?m)) arduino_attached))
         \<lparr>timers := (timers (run [TimePasses 700, TimerFires 1] (step (Message 1 (Parsed ?m)) arduino_attached)))[3 := None],
          connections := (connections (run [TimePasses 700, TimerFires 1] (step (Message 1 (Parsed ?m)) arduino_attached)))(1 \<mapsto>
             conn2\<lparr>ws_sent := ws_sent conn2 @ [ErrorFrame (already_connected_message ?d) None]\<rparr>)\<rparr>"
    unfolding Let_def len by blast
  then have "connections (run [Message 1 (Parsed ?m), TimePasses 700, TimerFires 1] arduino_attached) 1 = Some conn2
     \<and> map_option s_connectedAt (devices conn2 ?d) = Some 0
     \<and> connections (run [Message 1 (Parsed ?m), TimePasses 700, TimerFires 1, TimerFires 3] arduino_attached) 1
         = Some (conn2\<lparr>ws_sent := ws_sent conn2 @ [ErrorFrame (already_connected_message ?d) None]\<rparr>)"
    by simp
  with reachable_arduino_attached h2 h7 show ?thesis
    by (simp add: is_disconnect_def)
qed

section \<open>Closing a connection\<close>

text \<open>
  C3. The close of a socket, like its error, removes the client from
  \<open>activeConnections\<close> and touches neither a timer nor a device map. For the client with the attached Arduino, the interval is still armed after the
  close, and its next firing finds the session in the connection object it captured and
  sends a telemetry frame on the closed socket; the interval stays armed.
\<close>

theorem close_leaves_interval_armed:
  "timers (step (Close c) s) = timers s
   \<and> connections (step (Close c) s) = connections s
   \<and> timers (step (SocketError c) s) = timers s
   \<and> connections (step (SocketError c) s) = connections s
   \<and> step (Close 1) arduino_attached = arduino_attached\<lparr>activeConnections := {}\<rparr>
   \<and> armed (step (Close 1) arduino_attached) 1 (DeviceDataInterval 1 (js ''arduino-uno'')) 1500
   \<and> map_option ws_sent (connections (run [Close 1, TimerFires 1] arduino_attached) 1)
       = Some [Welcome 1,
               DeviceConnected (js ''arduino-uno'') (Some (js ''COM3'')) 9600
                 (Some (dev_capabilities arduino_uno)) (Some (dev_pins arduino_uno)),
               DeviceData (js ''arduino-uno'') (Telemetry (ArduinoData 768 768 768 1 1 1) 0)]
   \<and> armed (run [Close 1, TimerFires 1] arduino_attached) 1
         (DeviceDataInterval 1 (js ''arduino-uno'')) 1500"
  by (simp add: armed_def arduino_attached_eq handler_defs js_def sensorData_def above_def
      example_random_def Let_def)

text \<open>
  The same for every state and for ever: once a client is unregistered while its
  connection object holds a session whose interval is armed, every later event leaves
  all three as they are, and every firing of the interval sends one more telemetry frame
  on the socket of that client.
\<close>

lemma registry_updates [simp]:
  "registry (s\<lparr>random := g\<rparr>) = registry s"
  "registry (s\<lparr>now := n\<rparr>) = registry s"
  "registry (s\<lparr>timers := ts\<rparr>) = registry s"
  "registry (s\<lparr>connections := cs\<rparr>) = registry s"
  "registry (ws_send c f s) = registry s"
  "registry (setTimeout cb dl s) = registry s"
  "registry (setInterval cb dl s) = registry s"
  "registry (clearInterval h s) = registry s"
  by (simp_all add: registry_def ws_send_def setTimeout_def setInterval_def clearInterval_def
      split: option.splits)

lemma registry_handleExecuteCode: "registry (handleExecuteCode c m s) = registry s"
  by (simp add: handleExecuteCode_def Let_def next_random_eq split: option.splits prod.splits)

lemma registry_handleDeviceSpecificActions: "registry (handleDeviceSpecificActions c d s) = registry s"
  by (simp add: handleDeviceSpecificActions_def split: option.splits)

lemma registry_startDeviceDataSimulation: "registry (startDeviceDataSimulation c d s) = registry s"
  by (simp add: startDeviceDataSimulation_def Let_def next_random_eq split: option.splits)

lemma registry_callback: "registry (run_callback h cb s) = registry s"
  by (cases cb)
    (simp_all add: connect_delay_elapsed_def device_data_tick_def Let_def registry_handleExecuteCode
      registry_handleDeviceSpecificActions registry_startDeviceDataSimulation
      split: option.splits prod.splits)

lemma registry_message: "registry (handleMessage c m s) = registry s"
  by (simp add: handleMessage_def handleGetDeviceList_def handleConnectDevice_def
      handleDisconnectDevice_def handleSendData_def handleGetDeviceStatus_def handlePing_def
      handleUploadCode_def registry_handleExecuteCode Let_def next_random_eq split: option.splits)

lemma unregistered_step:
  assumes "c \<le> connectionId s" and "c \<notin> activeConnections s"
  shows "c \<notin> activeConnections (step e s)"
proof (cases e)
  case (Message c' raw)
  have "registry (step e s) = registry s"
    using Message by (cases raw) (simp_all add: registry_message)
  with assms show ?thesis by (simp add: registry_def)
next
  case (TimerFires h)
  have "registry (step e s) = registry s"
    using TimerFires by (simp add: registry_callback split: option.splits)
  with assms show ?thesis by (simp add: registry_def)
qed (use assms in \<open>auto simp add: Let_def\<close>)

lemma unregistered_message:
  "c \<notin> activeConnections s \<Longrightarrow> handleMessage c m s = s"
  by (simp add: handleMessage_def activeConnections_get_def)

lemma leaking_step:
  assumes "leaking s c d h dl sess"
  shows "leaking (step e s) c d h dl sess"
proof -
  let ?t = "\<lparr>delay = dl, repeats = True, callback = DeviceDataInterval c d\<rparr>"
  from assms have un: "c \<notin> activeConnections s" and hs: "has_session s c d sess"
    and ta: "timer_at s h ?t"
    by (simp_all add: leaking_def)
  from hs have le: "c \<le> connectionId s" by (simp add: has_session_def)
  have 1: "c \<notin> activeConnections (step e s)" using le un by (rule unregistered_step)
  have 2: "has_session (step e s) c d sess"
  proof (cases "is_disconnect c d e")
    case True
    then obtain m where "e = Message c (Parsed m)"
      by (auto simp add: is_disconnect_def split: event.splits raw_message.splits)
    with un hs show ?thesis by (simp add: unregistered_message)
  next
    case False
    with hs show ?thesis by (rule step_keeps_session)
  qed
  have 3: "timer_at (step e s) h ?t"
  proof (cases "e = TimerFires h")
    case True
    from hs obtain conn where conn: "connections s c = Some conn" "devices conn d = Some sess"
      by (auto simp add: has_session_def)
    then have "device_data_tick h c d s =
                 s\<lparr>random := snd (sensorData d (random s)),
                   connections := (connections s)(c \<mapsto>
                     conn\<lparr>ws_sent := ws_sent conn @
                       [DeviceData d (Telemetry (fst (sensorData d (random s))) (now s))]\<rparr>)\<rparr>"
      by (simp add: device_data_tick_present)
    with True ta show ?thesis by (simp add: timer_at_def)
  next
    case False
    with ta show ?thesis by (rule timer_kept_step)
  qed
  from 1 2 3 show ?thesis by (simp add: leaking_def)
qed

lemma leaking_run: "leaking s c d h dl sess \<Longrightarrow> leaking (run evs s) c d h dl sess"
  by (induction evs arbitrary: s) (simp_all add: leaking_step)

lemma leaking_fires:
  assumes "leaking s c d h dl sess"
  shows "\<exists>conn. connections s c = Some conn
           \<and> step (TimerFires h) s =
               s\<lparr>random := snd (sensorData d (random s)),
                 connections := (connections s)(c \<mapsto>
                   conn\<lparr>ws_sent := ws_sent conn @
                     [DeviceData d (Telemetry (fst (sensorData d (random s))) (now s))]\<rparr>)\<rparr>"
proof -
  from assms obtain conn where conn: "connections s c = Some conn" "devices conn d = Some sess"
    by (auto simp add: leaking_def has_session_def)
  from assms have "timer_at s h \<lparr>delay = dl, repeats = True, callback = DeviceDataInterval c d\<rparr>"
    by (simp add: leaking_def)
  with conn show ?thesis
    by (simp add: timer_at_def device_data_tick_present)
qed

section \<open>The telemetry interval\<close>

text \<open>
  C4 as amended. The telemetry timer is an interval of fixed period. Its period is
  sampled once, when \<open>startDeviceDataSimulation\<close> runs for the new session, as
  \<open>1000 + 2000 r\<close> ms for one value \<open>r\<close> of \<open>Math.random()\<close>, hence between 1000 and 3000
  ms. A firing that finds the session sends one telemetry frame and leaves the table of
  timers as it is: the interval stays armed with the same period, and nothing is sampled
  for it.
\<close>

theorem telemetry_interval_fixed:
  "(attached s c d \<longrightarrow>
      startDeviceDataSimulation c d s =
        s\<lparr>random := (random s)\<lparr>pos := Suc (pos (random s))\<rparr>,
          timers := timers s @
            [Some \<lparr>delay = 1000 + samples (random s) (pos (random s)) * 2000, repeats = True,
                   callback = DeviceDataInterval c d\<rparr>]\<rparr>)
   \<and> (0 \<le> samples (random s) (pos (random s)) \<and> samples (random s) (pos (random s)) < 1 \<longrightarrow>
        1000 \<le> 1000 + samples (random s) (pos (random s)) * 2000
        \<and> 1000 + samples (random s) (pos (random s)) * 2000 < 3000)
   \<and> (armed s h (DeviceDataInterval c d) dl \<and> connections s c = Some conn \<and> devices conn d \<noteq> None \<longrightarrow>
        step (TimerFires h) s =
          s\<lparr>random := snd (sensorData d (random s)),
            connections := (connections s)(c \<mapsto>
              conn\<lparr>ws_sent := ws_sent conn @
                [DeviceData d (Telemetry (fst (sensorData d (random s))) (now s))]\<rparr>)\<rparr>
        \<and> armed (step (TimerFires h) s) h (DeviceDataInterval c d) dl)"
proof (intro conjI impI)
  assume "attached s c d"
  then show "startDeviceDataSimulation c d s =
        s\<lparr>random := (random s)\<lparr>pos := Suc (pos (random s))\<rparr>,
          timers := timers s @
            [Some \<lparr>delay = 1000 + samples (random s) (pos (random s)) * 2000, repeats = True,
                   callback = DeviceDataInterval c d\<rparr>]\<rparr>"
    by (rule startDeviceDataSimulation_attached)
next
  assume a: "armed s h (DeviceDataInterval c d) dl \<and> connections s c = Some conn \<and> devices conn d \<noteq> None"
  then show e: "step (TimerFires h) s =
          s\<lparr>random := snd (sensorData d (random s)),
            connections := (connections s)(c \<mapsto>
              conn\<lparr>ws_sent := ws_sent conn @
                [DeviceData d (Telemetry (fst (sensorData d (random s))) (now s))]\<rparr>)\<rparr>"
    by (simp add: armed_def device_data_tick_present)
  from a show "armed (step (TimerFires h) s) h (DeviceDataInterval c d) dl"
    unfolding e by (simp add: armed_def)
qed simp_all

theorem telemetry_interval_fixed_witness:
  "attached arduino_attached 1 (js ''arduino-uno'')
   \<and> samples (random arduino_attached) (pos (random arduino_attached)) = 3 / 4
   \<and> timers (startDeviceDataSimulation 1 (js ''arduino-uno'') arduino_attached)
       = timers arduino_attached @
           [Some \<lparr>delay = 2500, repeats = True, callback = DeviceDataInterval 1 (js ''arduino-uno'')\<rparr>]
   \<and> armed arduino_attached 1 (DeviceDataInterval 1 (js ''arduino-uno'')) 1500
   \<and> armed (step (TimerFires 1) arduino_attached) 1 (DeviceDataInterval 1 (js ''arduino-uno'')) 1500
   \<and> timers (step (TimerFires 1) arduino_attached) = timers arduino_attached"
proof -
  let ?d = "js ''arduino-uno''"
  let ?conn = "\<lparr>ws_sent = [Welcome 1,
                            DeviceConnected (js ''arduino-uno'') (Some (js ''COM3'')) 9600
                              (Some (dev_capabilities arduino_uno)) (Some (dev_pins arduino_uno))],
                 ip = js ''127.0.0.1'', is_connected = True,
                 devices = [js ''arduino-uno'' \<mapsto>
                              \<lparr>s_spread = Some arduino_uno, s_peripheralId = Some (js ''COM3''),
                               s_baudrate = 9600, s_connectedAt = 0, s_status = js ''connected''\<rparr>]\<rparr>"
  note fixed = telemetry_interval_fixed [where s = arduino_attached and c = 1 and d = "?d"
      and h = 1 and dl = 1500 and conn = "?conn"]
  have a: "attached arduino_attached 1 ?d" by (simp add: attached_def arduino_attached_eq)
  have r: "samples (random arduino_attached) (pos (random arduino_attached)) = 3 / 4"
    by (simp add: arduino_attached_eq example_random_def)
  have ar: "armed arduino_attached 1 (DeviceDataInterval 1 ?d) 1500"
    by (simp add: armed_def arduino_attached_eq)
  have c: "connections arduino_attached 1 = Some ?conn" by (simp add: arduino_attached_eq)
  have dv: "devices ?conn ?d \<noteq> None" by simp
  from fixed [THEN conjunct1] a
  have "timers (startDeviceDataSimulation 1 ?d arduino_attached)
       = timers arduino_attached @
           [Some \<lparr>delay = 2500, repeats = True, callback = DeviceDataInterval 1 ?d\<rparr>]"
    by (simp add: r)
  moreover from fixed [THEN conjunct2, THEN conjunct2] ar c dv
  have "step (TimerFires 1) arduino_attached =
          arduino_attached\<lparr>random := snd (sensorData ?d (random arduino_attached)),
            connections := (connections arduino_attached)(1 \<mapsto>
              ?conn\<lparr>ws_sent := ws_sent ?conn @
                [DeviceData ?d (Telemetry (fst (sensorData ?d (random arduino_attached))) (now arduino_attached))]\<rparr>)\<rparr>"
    and "armed (step (TimerFires 1) arduino_attached) 1 (DeviceDataInterval 1 ?d) 1500"
    by blast+
  ultimately show ?thesis using a r ar by simp
qed

text \<open>
  The claim as stated fails: the interval of the attached Arduino was started with the
  period 1500 ms, and after one firing and after two firings its period is still 1500 ms,
  although a value sampled at the first firing would have given 2500 ms.
\<close>

theorem telemetry_interval_not_resampled_counterexample:
  "map_option delay (timers arduino_attached ! 1) = Some 1500
   \<and> map_option delay (timers (run [TimerFires 1] arduino_attached) ! 1) = Some 1500
   \<and> map_option delay (timers (run [TimerFires 1, TimerFires 1] arduino_attached) ! 1) = Some 1500
   \<and> 1000 + samples (random (run [TimerFires 1] arduino_attached))
               (pos (random (run [TimerFires 1] arduino_attached))) * 2000 = 2500
   \<and> length (telemetry_frames (run [TimerFires 1, TimerFires 1] arduino_attached) 1 (js ''arduino-uno'')) = 2"
  by (simp add: arduino_attached_eq handler_defs client_message_def js_def sensorData_def above_def
      example_random_def telemetry_frames_def Let_def)

section \<open>Disconnecting a device\<close>

lemma handleDisconnectDevice_attached:
  assumes "c \<in> activeConnections s" and "connections s c = Some conn"
    and "devices conn (m_deviceId m) \<noteq> None"
  shows "handleDisconnectDevice c m s =
           s\<lparr>connections := (connections s)(c \<mapsto>
               conn\<lparr>devices := (devices conn)((m_deviceId m) := None),
                    ws_sent := ws_sent conn @ [DeviceDisconnected (m_deviceId m)]\<rparr>)\<rparr>"
  using assms
  by (auto simp add: handleDisconnectDevice_def activeConnections_get_def ws_send_def Let_def)

lemma device_data_tick_absent:
  assumes "connections s c = Some conn" and "devices conn d = None"
  shows "device_data_tick h c d s = s\<lparr>timers := (timers s)[h := None]\<rparr>"
  using assms by (simp add: device_data_tick_def clearInterval_def)

text \<open>
  C5. When the interval timer of a device fires and the connection has no session for the
  device, the callback clears its own interval and does nothing else: no frame is sent.
  After a \<open>disconnectDevice\<close> of an attached device (with no connect completion for it
  waiting), and whatever events follow as long as none is a new \<open>connectDevice\<close> of that
  client for that device, no telemetry frame of the device is sent any more, at any
  time, and each firing of an interval timer of the device cancels it. If moreover no
  reply of a \<open>sendData\<close> for the device was waiting at the disconnect, no \<open>deviceData\<close>
  frame of the device of any kind is sent any more.
\<close>

theorem disconnect_stops_telemetry:
  assumes "reachable s"
    and "c \<in> activeConnections s"
    and "connections s c = Some conn"
    and "devices conn d \<noteq> None"
    and "\<forall>tm. Some tm \<in> set (timers s) \<longrightarrow> \<not> connect_callback_for c d (callback tm)"
    and "m_type m = js ''disconnectDevice''"
    and "m_deviceId m = d"
    and "\<forall>e \<in> set evs. \<not> is_connect_request c d e"
  shows "(\<forall>s' h dl conn'. armed s' h (DeviceDataInterval c d) dl \<and> connections s' c = Some conn'
             \<and> devices conn' d = None
           \<longrightarrow> step (TimerFires h) s' = s'\<lparr>timers := (timers s')[h := None]\<rparr>)
         \<and> (let s1 = step (Message c (Parsed m)) s; s2 = run evs s1 in
              s1 = s\<lparr>connections := (connections s)(c \<mapsto>
                        conn\<lparr>devices := (devices conn)(d := None),
                             ws_sent := ws_sent conn @ [DeviceDisconnected d]\<rparr>)\<rparr>
              \<and> telemetry_frames s2 c d = telemetry_frames s c d
              \<and> (no_reply_waiting s c d \<longrightarrow> device_data_frames s2 c d = device_data_frames s c d)
              \<and> (\<forall>h dl. armed s2 h (DeviceDataInterval c d) dl
                    \<longrightarrow> step (TimerFires h) s2 = s2\<lparr>timers := (timers s2)[h := None]\<rparr>))"
proof -
  define s1 where "s1 = step (Message c (Parsed m)) s"
  define s2 where "s2 = run evs s1"
  have fire: "step (TimerFires h) s' = s'\<lparr>timers := (timers s')[h := None]\<rparr>"
    if "armed s' h (DeviceDataInterval c d) dl" "connections s' c = Some conn'" "devices conn' d = None"
    for s' h dl conn'
    using that by (simp add: armed_def device_data_tick_absent)
  have wf: "wf_state s" using assms(1) by (rule reachable_wf)
  with assms(3) have le: "c \<le> connectionId s" by (auto simp add: wf_state_def)
  have s1: "s1 = s\<lparr>connections := (connections s)(c \<mapsto>
                      conn\<lparr>devices := (devices conn)(d := None),
                           ws_sent := ws_sent conn @ [DeviceDisconnected d]\<rparr>)\<rparr>"
    using assms(2,3,4,6,7) handleDisconnectDevice_attached [of c s conn m]
    by (simp add: s1_def handleMessage_def activeConnections_get_def js_def)
  have d1: "detached s1 c d"
    using le assms(5) by (simp add: s1 detached_def)
  have tf1: "telemetry_frames s1 c d = telemetry_frames s c d"
    using assms(3) by (simp add: s1 telemetry_frames_def)
  have q: "quiet c d s1 s2"
    unfolding s2_def using d1 assms(8) by (rule quiet_run)
  then have tf2: "telemetry_frames s2 c d = telemetry_frames s c d"
    using tf1 by (simp add: quiet_def)
  have dd: "device_data_frames s2 c d = device_data_frames s c d" if "no_reply_waiting s c d"
  proof -
    from that have "no_reply_waiting s1 c d" by (simp add: s1)
    with d1 have "silent_state s1 c d" by (simp add: silent_state_def)
    then have "silent c d s1 s2"
      unfolding s2_def using assms(8) by (rule silent_run)
    moreover have "device_data_frames s1 c d = device_data_frames s c d"
      using assms(3) by (simp add: s1 device_data_frames_def)
    ultimately show ?thesis by (simp add: silent_def)
  qed
  from q have "detached s2 c d" by (simp add: quiet_def)
  then obtain conn2 where conn2: "connections s2 c = Some conn2" "devices conn2 d = None"
    by (auto simp add: detached_def)
  have fire2: "step (TimerFires h) s2 = s2\<lparr>timers := (timers s2)[h := None]\<rparr>"
    if "armed s2 h (DeviceDataInterval c d) dl" for h dl
    using that conn2 by (rule fire)
  show ?thesis
    unfolding Let_def s1_def [symmetric] s2_def [symmetric]
    using fire s1 tf2 dd fire2 by blast
qed

theorem disconnect_stops_telemetry_witness:
  "reachable (run [TimerFires 1] arduino_attached)
   \<and> 1 \<in> activeConnections (run [TimerFires 1] arduino_attached)
   \<and> \<not> is_connect_request 1 (js ''arduino-uno'') (TimePasses 1500)
   \<and> \<not> is_connect_request 1 (js ''arduino-uno'') (TimerFires 1)
   \<and> armed (run [TimerFires 1, Message 1 (Parsed (client_message ''disconnectDevice'' ''arduino-uno'' [])),
                  TimePasses 1500] arduino_attached)
        1 (DeviceDataInterval 1 (js ''arduino-uno'')) 1500
   \<and> telemetry_frames
        (run [TimerFires 1, Message 1 (Parsed (client_message ''disconnectDevice'' ''arduino-uno'' [])),
              TimePasses 1500, TimerFires 1] arduino_attached) 1 (js ''arduino-uno'')
       = [DeviceData (js ''arduino-uno'') (Telemetry (ArduinoData 768 768 768 1 1 1) 0)]
   \<and> no_reply_waiting (run [TimerFires 1] arduino_attached) 1 (js ''arduino-uno'')
   \<and> device_data_frames
        (run [TimerFires 1, Message 1 (Parsed (client_message ''disconnectDevice'' ''arduino-uno'' [])),
              TimePasses 1500] arduino_attached) 1 (js ''arduino-uno'')
       = [DeviceData (js ''arduino-uno'') (Telemetry (ArduinoData 768 768 768 1 1 1) 0)]
   \<and> timers
        (run [TimerFires 1, Message 1 (Parsed (client_message ''disconnectDevice'' ''arduino-uno'' [])),
              TimePasses 1500, TimerFires 1] arduino_attached) ! 1 = None"
proof -
  let ?s = "run [TimerFires 1] arduino_attached"
  let ?d = "js ''arduino-uno''"
  let ?m = "client_message ''disconnectDevice'' ''arduino-uno'' []"
  let ?conn = "\<lparr>ws_sent = [Welcome 1,
                              DeviceConnected (js ''arduino-uno'') (Some (js ''COM3'')) 9600
                                (Some (dev_capabilities arduino_uno)) (Some (dev_pins arduino_uno)),
                              DeviceData (js ''arduino-uno'')
                                (Telemetry (ArduinoData 768 768 768 1 1 1) 0)],
                   ip = js ''127.0.0.1'', is_connected = True,
                   devices = [js ''arduino-uno'' \<mapsto>
                                \<lparr>s_spread = Some arduino_uno, s_peripheralId = Some (js ''COM3''),
                                 s_baudrate = 9600, s_connectedAt = 0, s_status = js ''connected''\<rparr>]\<rparr>"
  have h1: "reachable ?s" using reachable_arduino_attached by (rule reachable_run)
  have h2: "1 \<in> activeConnections ?s" by (simp only: arduino_telemetry_once) (simp add: arduino_attached_eq)
  have h3: "connections ?s 1 = Some ?conn" by (simp only: arduino_telemetry_once) simp
  have h4: "devices ?conn ?d \<noteq> None" by simp
  have h5: "\<forall>tm. Some tm \<in> set (timers ?s) \<longrightarrow> \<not> connect_callback_for 1 ?d (callback tm)"
    by (simp only: arduino_telemetry_once) (auto simp add: arduino_attached_eq)
  have h6: "m_type ?m = js ''disconnectDevice''" by (simp add: client_message_def)
  have h7: "m_deviceId ?m = ?d" by (simp add: client_message_def)
  have h8: "\<forall>e \<in> set [TimePasses 1500]. \<not> is_connect_request 1 ?d e"
    by (simp add: is_connect_request_def)
  let ?s2 = "run [TimePasses 1500] (step (Message 1 (Parsed ?m)) ?s)"
  from disconnect_stops_telemetry [OF h1 h2 h3 h4 h5 h6 h7 h8]
  have tf: "telemetry_frames ?s2 1 ?d = telemetry_frames ?s 1 ?d"
    and dd: "no_reply_waiting ?s 1 ?d \<longrightarrow> device_data_frames ?s2 1 ?d = device_data_frames ?s 1 ?d"
    and fire: "\<And>h dl. armed ?s2 h (DeviceDataInterval 1 ?d) dl
                 \<Longrightarrow> step (TimerFires h) ?s2 = ?s2\<lparr>timers := (timers ?s2)[h := None]\<rparr>"
    unfolding Let_def by blast+
  have tm: "timers ?s2 = timers arduino_attached"
    by (simp add: handler_defs client_message_def js_def arduino_attached_eq sensorData_def above_def Let_def)
  have ar: "armed ?s2 1 (DeviceDataInterval 1 ?d) 1500"
    unfolding armed_def tm by (simp add: arduino_attached_eq)
  from fire [OF ar] have st: "step (TimerFires 1) ?s2 = ?s2\<lparr>timers := (timers ?s2)[1 := None]\<rparr>" .
  have tf0: "telemetry_frames ?s 1 ?d = [DeviceData ?d (Telemetry (ArduinoData 768 768 768 1 1 1) 0)]"
    unfolding telemetry_frames_def by (simp only: arduino_telemetry_once) (simp add: js_def)
  have e1: "run [TimerFires 1, Message 1 (Parsed ?m), TimePasses 1500] arduino_attached = ?s2"
    by simp
  have e2: "run [TimerFires 1, Message 1 (Parsed ?m), TimePasses 1500, TimerFires 1] arduino_attached
             = step (TimerFires 1) ?s2"
    by simp
  have c6: "telemetry_frames (step (TimerFires 1) ?s2) 1 ?d
              = [DeviceData ?d (Telemetry (ArduinoData 768 768 768 1 1 1) 0)]"
    unfolding st using tf tf0 by simp
  have c7: "timers (step (TimerFires 1) ?s2) ! 1 = None"
    unfolding st using tm by (simp add: arduino_attached_eq)
  have h9: "no_reply_waiting ?s 1 ?d"
    unfolding no_reply_waiting_def by (simp only: arduino_telemetry_once) (auto simp add: arduino_attached_eq)
  have dd0: "device_data_frames ?s 1 ?d = [DeviceData ?d (Telemetry (ArduinoData 768 768 768 1 1 1) 0)]"
    unfolding device_data_frames_def by (simp only: arduino_telemetry_once) (simp add: js_def)
  from dd h9 dd0 have c8: "device_data_frames ?s2 1 ?d
      = [DeviceData ?d (Telemetry (ArduinoData 768 768 768 1 1 1) 0)]"
    by simp
  show ?thesis
    unfolding e1 e2 using h1 h2 ar c6 c7 h9 c8 by (simp add: is_connect_request_def)
qed

section \<open>Uploading code\<close>

lemma handleUploadCode_attached:
  assumes "attached s c (m_deviceId m)"
  shows "handleUploadCode c m s =
           s\<lparr>random := (random s)\<lparr>pos := Suc (pos (random s))\<rparr>,
             timers := timers s @
               [Some \<lparr>delay = samples (random s) (pos (random s)) * 2000 + 1000, repeats = False,
                      callback = UploadDelay c (m_deviceId m) (m_code m)\<rparr>]\<rparr>"
  using assms
  by (auto simp add: attached_def handleUploadCode_def activeConnections_get_def next_random_eq
      setTimeout_def Let_def)

lemma handleExecuteCode_attached:
  assumes "attached s c (m_deviceId m)"
  shows "handleExecuteCode c m s =
           s\<lparr>random := (snd (simulate_output (m_code m) (random s)))
                         \<lparr>pos := Suc (pos (snd (simulate_output (m_code m) (random s))))\<rparr>,
             timers := timers s @
               [Some \<lparr>delay = samples (snd (simulate_output (m_code m) (random s)))
                                (pos (snd (simulate_output (m_code m) (random s)))) * 1000 + 500,
                      repeats = False,
                      callback = ExecuteDelay c (m_deviceId m)
                                   (fst (simulate_output (m_code m) (random s)))\<rparr>]\<rparr>"
  using assms
  by (auto simp add: attached_def handleExecuteCode_def activeConnections_get_def next_random_eq
      setTimeout_def Let_def split: prod.splits)

text \<open>
  C6 as amended. An \<open>uploadCode\<close> for an attached device starts one delay of
  \<open>1000 + 2000 r\<close> ms and sends nothing. When that delay elapses, exactly one
  \<open>codeUploaded\<close> frame with the length of the code and the time is sent, without any
  check, and one timeout of 1000 ms for the automatic run is started. When that timeout
  elapses and the device is still attached to the registered client, nothing is sent and
  one execute delay holding the simulated output of the same code is started; when it
  elapses, exactly one \<open>codeExecuted\<close> frame with that output is sent. Each of the three
  timeouts is used up by its firing.
\<close>

theorem upload_then_automatic_run:
  "(attached s c d \<and> m_type m = js ''uploadCode'' \<and> m_deviceId m = d \<longrightarrow>
      step (Message c (Parsed m)) s =
        s\<lparr>random := (random s)\<lparr>pos := Suc (pos (random s))\<rparr>,
          timers := timers s @
            [Some \<lparr>delay = samples (random s) (pos (random s)) * 2000 + 1000, repeats = False,
                   callback = UploadDelay c d (m_code m)\<rparr>]\<rparr>)
   \<and> (pending s h (UploadDelay c d code) dl \<and> connections s c = Some conn \<longrightarrow>
        step (TimerFires h) s =
          s\<lparr>timers := (timers s)[h := None] @
                 [Some \<lparr>delay = 1000, repeats = False, callback = AutoExecute c d code\<rparr>],
            connections := (connections s)(c \<mapsto>
              conn\<lparr>ws_sent := ws_sent conn @ [CodeUploaded d (length code) (now s)]\<rparr>)\<rparr>)
   \<and> (pending s h (AutoExecute c d code) dl \<and> attached s c d \<longrightarrow>
        step (TimerFires h) s =
          s\<lparr>timers := (timers s)[h := None] @
                 [Some \<lparr>delay = samples (snd (simulate_output code (random s)))
                                  (pos (snd (simulate_output code (random s)))) * 1000 + 500,
                        repeats = False,
                        callback = ExecuteDelay c d (fst (simulate_output code (random s)))\<rparr>],
            random := (snd (simulate_output code (random s)))
                        \<lparr>pos := Suc (pos (snd (simulate_output code (random s))))\<rparr>\<rparr>)
   \<and> (pending s h (ExecuteDelay c d out) dl \<and> connections s c = Some conn \<longrightarrow>
        step (TimerFires h) s =
          s\<lparr>timers := (timers s)[h := None],
            connections := (connections s)(c \<mapsto>
              conn\<lparr>ws_sent := ws_sent conn @ [CodeExecuted d (js_join_lines out) (now s)]\<rparr>)\<rparr>)"
proof (intro conjI impI)
  assume a: "attached s c d \<and> m_type m = js ''uploadCode'' \<and> m_deviceId m = d"
  then have "c \<in> activeConnections s" "connections s c \<noteq> None"
    by (auto simp add: attached_def)
  then have "handleMessage c m s = handleUploadCode c m s"
    using a by (auto simp add: handleMessage_def activeConnections_get_def js_def)
  then show "step (Message c (Parsed m)) s =
        s\<lparr>random := (random s)\<lparr>pos := Suc (pos (random s))\<rparr>,
          timers := timers s @
            [Some \<lparr>delay = samples (random s) (pos (random s)) * 2000 + 1000, repeats = False,
                   callback = UploadDelay c d (m_code m)\<rparr>]\<rparr>"
    using a handleUploadCode_attached [of s c m] by simp
next
  assume "pending s h (UploadDelay c d code) dl \<and> connections s c = Some conn"
  then show "step (TimerFires h) s =
          s\<lparr>timers := (timers s)[h := None] @
                 [Some \<lparr>delay = 1000, repeats = False, callback = AutoExecute c d code\<rparr>],
            connections := (connections s)(c \<mapsto>
              conn\<lparr>ws_sent := ws_sent conn @ [CodeUploaded d (length code) (now s)]\<rparr>)\<rparr>"
    by (simp add: pending_def ws_send_def setTimeout_def)
next
  assume a: "pending s h (AutoExecute c d code) dl \<and> attached s c d"
  let ?m = "\<lparr>m_type = js ''executeCode'', m_deviceId = d, m_peripheralId = None,
             m_baudrate = None, m_data = [], m_code = code\<rparr>"
  let ?s = "s\<lparr>timers := (timers s)[h := None]\<rparr>"
  from a have "attached ?s c (m_deviceId ?m)" by (simp add: attached_def)
  from handleExecuteCode_attached [OF this] a
  show "step (TimerFires h) s =
          s\<lparr>timers := (timers s)[h := None] @
                 [Some \<lparr>delay = samples (snd (simulate_output code (random s)))
                                  (pos (snd (simulate_output code (random s)))) * 1000 + 500,
                        repeats = False,
                        callback = ExecuteDelay c d (fst (simulate_output code (random s)))\<rparr>],
            random := (snd (simulate_output code (random s)))
                        \<lparr>pos := Suc (pos (snd (simulate_output code (random s))))\<rparr>\<rparr>"
    by (simp add: pending_def)
next
  assume "pending s h (ExecuteDelay c d out) dl \<and> connections s c = Some conn"
  then show "step (TimerFires h) s =
          s\<lparr>timers := (timers s)[h := None],
            connections := (connections s)(c \<mapsto>
              conn\<lparr>ws_sent := ws_sent conn @ [CodeExecuted d (js_join_lines out) (now s)]\<rparr>)\<rparr>"
    by (simp add: pending_def ws_send_def)
qed

theorem upload_then_automatic_run_witness:
  "attached arduino_attached 1 (js ''arduino-uno'')
   \<and> pending (run [Message 1 (Parsed (client_message ''uploadCode'' ''arduino-uno'' print_hello))]
                 arduino_attached)
        3 (UploadDelay 1 (js ''arduino-uno'') print_hello) 2500
   \<and> pending (run [Message 1 (Parsed (client_message ''uploadCode'' ''arduino-uno'' print_hello)),
                   TimerFires 3] arduino_attached)
        4 (AutoExecute 1 (js ''arduino-uno'') print_hello) 1000
   \<and> pending (run [Message 1 (Parsed (client_message ''uploadCode'' ''arduino-uno'' print_hello)),
                   TimerFires 3, TimerFires 4] arduino_attached)
        5 (ExecuteDelay 1 (js ''arduino-uno'') [js ''hello'']) 1250
   \<and> map_option ws_sent
        (connections (run [Message 1 (Parsed (client_message ''uploadCode'' ''arduino-uno'' print_hello)),
                           TimerFires 3, TimerFires 4, TimerFires 5] arduino_attached) 1)
       = Some [Welcome 1,
               DeviceConnected (js ''arduino-uno'') (Some (js ''COM3'')) 9600
                 (Some (dev_capabilities arduino_uno)) (Some (dev_pins arduino_uno)),
               CodeUploaded (js ''arduino-uno'') 14 0,
               CodeExecuted (js ''arduino-uno'') (js ''hello'') 0]"
proof -
  let ?d = "js ''arduino-uno''"
  let ?m = "client_message ''uploadCode'' ''arduino-uno'' print_hello"
  let ?s0 = "arduino_attached"
  let ?s1 = "step (Message 1 (Parsed ?m)) ?s0"
  let ?s2 = "step (TimerFires 3) ?s1"
  let ?s3 = "step (TimerFires 4) ?s2"
  let ?s4 = "step (TimerFires 5) ?s3"
  let ?conn = "\<lparr>ws_sent = [Welcome 1,
                            DeviceConnected (js ''arduino-uno'') (Some (js ''COM3'')) 9600
                              (Some (dev_capabilities arduino_uno)) (Some (dev_pins arduino_uno))],
                 ip = js ''127.0.0.1'', is_connected = True,
                 devices = [js ''arduino-uno'' \<mapsto>
                              \<lparr>s_spread = Some arduino_uno, s_peripheralId = Some (js ''COM3''),
                               s_baudrate = 9600, s_connectedAt = 0, s_status = js ''connected''\<rparr>]\<rparr>"
  note chain = upload_then_automatic_run
  have sim: "simulate_output print_hello g = ([js ''hello''], g)" for g
    by (simp add: simulate_output_def scan_line_def canned_lines_def print_hello_def js_def regex_defs Let_def)
  have a0: "attached ?s0 1 ?d" by (simp add: attached_def arduino_attached_eq)
  have m: "m_type ?m = js ''uploadCode''" "m_deviceId ?m = ?d" "m_code ?m = print_hello"
    by (simp_all add: client_message_def)
  have e1: "?s1 = ?s0\<lparr>random := (random ?s0)\<lparr>pos := Suc (pos (random ?s0))\<rparr>,
                     timers := timers ?s0 @
                       [Some \<lparr>delay = samples (random ?s0) (pos (random ?s0)) * 2000 + 1000,
                              repeats = False, callback = UploadDelay 1 ?d print_hello\<rparr>]\<rparr>"
    using chain [where s = "?s0" and c = 1 and d = "?d" and m = "?m", THEN conjunct1] a0 m
    by (simp only:)
  have p1: "pending ?s1 3 (UploadDelay 1 ?d print_hello) 2500"
    unfolding e1 by (simp add: pending_def arduino_attached_eq example_random_def)
  have c1: "connections ?s1 1 = Some ?conn"
    unfolding e1 by (simp add: arduino_attached_eq)
  have e2: "?s2 = ?s1\<lparr>timers := (timers ?s1)[3 := None] @
                       [Some \<lparr>delay = 1000, repeats = False, callback = AutoExecute 1 ?d print_hello\<rparr>],
                     connections := (connections ?s1)(1 \<mapsto>
                       ?conn\<lparr>ws_sent := ws_sent ?conn @ [CodeUploaded ?d (length print_hello) (now ?s1)]\<rparr>)\<rparr>"
    using chain [where s = "?s1" and c = 1 and d = "?d" and h = 3 and code = print_hello
        and dl = 2500 and conn = "?conn", THEN conjunct2, THEN conjunct1] p1 c1
    by blast
  have p2: "pending ?s2 4 (AutoExecute 1 ?d print_hello) 1000"
    unfolding e2 unfolding e1 by (simp add: pending_def arduino_attached_eq)
  have a2: "attached ?s2 1 ?d"
    unfolding e2 unfolding e1 by (simp add: attached_def arduino_attached_eq)
  have "?s3 = ?s2\<lparr>timers := (timers ?s2)[4 := None] @
                 [Some \<lparr>delay = samples (snd (simulate_output print_hello (random ?s2)))
                                  (pos (snd (simulate_output print_hello (random ?s2)))) * 1000 + 500,
                        repeats = False,
                        callback = ExecuteDelay 1 ?d (fst (simulate_output print_hello (random ?s2)))\<rparr>],
            random := (snd (simulate_output print_hello (random ?s2)))
                        \<lparr>pos := Suc (pos (snd (simulate_output print_hello (random ?s2))))\<rparr>\<rparr>"
    using chain [where s = "?s2" and c = 1 and d = "?d" and h = 4 and code = print_hello
        and dl = 1000, THEN conjunct2, THEN conjunct2, THEN conjunct1] p2 a2
    by blast
  then have e3: "?s3 = ?s2\<lparr>timers := (timers ?s2)[4 := None] @
                 [Some \<lparr>delay = samples (random ?s2) (pos (random ?s2)) * 1000 + 500,
                        repeats = False, callback = ExecuteDelay 1 ?d [js ''hello'']\<rparr>],
            random := (random ?s2)\<lparr>pos := Suc (pos (random ?s2))\<rparr>\<rparr>"
    by (simp only: sim fst_conv snd_conv)
  have p3: "pending ?s3 5 (ExecuteDelay 1 ?d [js ''hello'']) 1250"
    unfolding e3 unfolding e2 unfolding e1
    by (simp add: pending_def arduino_attached_eq example_random_def)
  have c3: "connections ?s3 1 =
              Some (?conn\<lparr>ws_sent := ws_sent ?conn @ [CodeUploaded ?d (length print_hello) (now ?s1)]\<rparr>)"
    unfolding e3 unfolding e2 by simp
  have e4: "?s4 = ?s3\<lparr>timers := (timers ?s3)[5 := None],
                     connections := (connections ?s3)(1 \<mapsto>
                       (?conn\<lparr>ws_sent := ws_sent ?conn @ [CodeUploaded ?d (length print_hello) (now ?s1)]\<rparr>)
                         \<lparr>ws_sent := ws_sent (?conn\<lparr>ws_sent := ws_sent ?conn @ [CodeUploaded ?d (length print_hello) (now ?s1)]\<rparr>)
                                       @ [CodeExecuted ?d (js_join_lines [js ''hello'']) (now ?s3)]\<rparr>)\<rparr>"
    using chain [where s = "?s3" and c = 1 and d = "?d" and h = 5 and out = "[js ''hello'']"
        and dl = 1250 and conn = "?conn\<lparr>ws_sent := ws_sent ?conn @ [CodeUploaded ?d (length print_hello) (now ?s1)]\<rparr>",
        THEN conjunct2, THEN conjunct2, THEN conjunct2] p3 c3
    by blast
  have n1: "now ?s1 = 0"
    unfolding e1 by (simp add: arduino_attached_eq)
  have n3: "now ?s3 = 0"
    unfolding e3 unfolding e2 unfolding e1 by (simp add: arduino_attached_eq)
  have final: "map_option ws_sent (connections ?s4 1)
       = Some [Welcome 1,
               DeviceConnected (js ''arduino-uno'') (Some (js ''COM3'')) 9600
                 (Some (dev_capabilities arduino_uno)) (Some (dev_pins arduino_uno)),
               CodeUploaded (js ''arduino-uno'') 14 0,
               CodeExecuted (js ''arduino-uno'') (js ''hello'') 0]"
    unfolding e4 n3 n1 by (simp add: print_hello_def js_def)
  show ?thesis
    using a0 p1 p2 p3 final by simp
qed

text \<open>
  The claim as stated fails when the device is detached between the upload and the
  automatic run: the upload of \<open>print('hello')\<close> to the attached Arduino, followed by a
  \<open>disconnectDevice\<close>, yields \<open>codeUploaded\<close> and then an error frame. No
  \<open>codeExecuted\<close> is sent and no execute delay is waiting.
\<close>

theorem upload_then_disconnect_counterexample:
  "attached arduino_attached 1 (js ''arduino-uno'')
   \<and> map_option ws_sent
        (connections (run [Message 1 (Parsed (client_message ''uploadCode'' ''arduino-uno'' print_hello)),
                           Message 1 (Parsed (client_message ''disconnectDevice'' ''arduino-uno'' [])),
                           TimerFires 3, TimerFires 4] arduino_attached) 1)
       = Some [Welcome 1,
               DeviceConnected (js ''arduino-uno'') (Some (js ''COM3'')) 9600
                 (Some (dev_capabilities arduino_uno)) (Some (dev_pins arduino_uno)),
               DeviceDisconnected (js ''arduino-uno''),
               CodeUploaded (js ''arduino-uno'') 14 0,
               ErrorFrame (not_connected_message (js ''arduino-uno'')) None]
   \<and> timers (run [Message 1 (Parsed (client_message ''uploadCode'' ''arduino-uno'' print_hello)),
                    Message 1 (Parsed (client_message ''disconnectDevice'' ''arduino-uno'' [])),
                    TimerFires 3, TimerFires 4] arduino_attached)
       = [None,
          Some \<lparr>delay = 1500, repeats = True, callback = DeviceDataInterval 1 (js ''arduino-uno'')\<rparr>,
          Some \<lparr>delay = 1000, repeats = False, callback = ArduinoBlink 1 (js ''arduino-uno'')\<rparr>,
          None, None]"
  by (simp add: attached_def arduino_attached_eq handler_defs client_message_def js_def
      print_hello_def Let_def)

section \<open>The simulated output\<close>

lemma scan_line_extends: "\<exists>ys. fst (scan_line acc l) = fst acc @ ys"
  by (cases acc) (auto simp add: scan_line_def Let_def Math_random_def split: option.splits)

lemma foldl_scan_line_extends: "\<exists>ys. fst (foldl scan_line acc ls) = fst acc @ ys"
proof (induction ls arbitrary: acc)
  case Nil
  then show ?case by simp
next
  case (Cons l ls)
  obtain ys where "fst (scan_line acc l) = fst acc @ ys" using scan_line_extends by blast
  moreover obtain zs where "fst (foldl scan_line (scan_line acc l) ls) = fst (scan_line acc l) @ zs"
    using Cons by blast
  ultimately show ?case by simp
qed

lemma print_hello_matches:
  "printMatch print_hello = Some (js ''hello'')" "fStringMatch print_hello = None"
  "print_hello \<noteq> []" "\<not> js_startsWith print_hello (js ''#'')"
  by (simp_all add: print_hello_def js_def printMatch_def fStringMatch_def match_here_def
      is_quote_def is_line_terminator_def)

lemma scan_line_hello:
  "js_trim l = print_hello \<Longrightarrow> fst (scan_line acc l) = fst acc @ [js ''hello'']"
  by (cases acc) (simp add: scan_line_def print_hello_matches Let_def)

lemma foldl_scan_line_hello:
  "l \<in> set ls \<Longrightarrow> js_trim l = print_hello \<Longrightarrow> js ''hello'' \<in> set (fst (foldl scan_line acc ls))"
proof (induction ls arbitrary: acc)
  case Nil
  then show ?case by simp
next
  case (Cons x ls)
  show ?case
  proof (cases "x = l")
    case True
    obtain zs where "fst (foldl scan_line (scan_line acc l) ls) = fst (scan_line acc l) @ zs"
      using foldl_scan_line_extends by blast
    with Cons.prems True show ?thesis by (simp add: scan_line_hello)
  next
    case False
    with Cons show ?thesis by simp
  qed
qed

lemma js_startsWith_append: "js_startsWith (p @ r) p"
  by (induction p) simp_all

lemma js_includes_middle: "js_includes (a @ p @ b) p"
proof (induction a)
  case Nil
  show ?case
  proof (cases "p @ b")
    case Nil
    then show ?thesis by simp
  next
    case (Cons x xs)
    have "js_startsWith (p @ b) p" by (rule js_startsWith_append)
    with Cons show ?thesis by simp
  qed
next
  case (Cons x a)
  then show ?case by simp
qed

lemma js_join_lines_member:
  "x \<in> set xs \<Longrightarrow> \<exists>a b. js_join_lines xs = a @ x @ b"
proof (induction xs rule: js_join_lines.induct)
  case 1
  then show ?case by simp
next
  case (2 l)
  then have "js_join_lines [l] = [] @ x @ []" by simp
  then show ?case by blast
next
  case (3 l m ls)
  show ?case
  proof (cases "x = l")
    case True
    then have "js_join_lines (l # m # ls) = [] @ x @ (10 # js_join_lines (m # ls))" by simp
    then show ?thesis by blast
  next
    case False
    with 3 obtain a b where "js_join_lines (m # ls) = a @ x @ b" by auto
    then have "js_join_lines (l # m # ls) = (l @ 10 # a) @ x @ b" by simp
    then show ?thesis by blast
  qed
qed

lemma js_includes_join: "x \<in> set xs \<Longrightarrow> js_includes (js_join_lines xs) x"
  using js_join_lines_member [of x xs] js_includes_middle by auto

lemma simulate_output_fst:
  "fst (simulate_output code g) = fst (foldl scan_line ([], g) (js_split_lines code)) @ canned_lines code"
  by (simp add: simulate_output_def split: prod.splits)

text \<open>
  C7 as amended. An \<open>executeCode\<close> for an attached device starts one delay; when it
  elapses, one \<open>codeExecuted\<close> frame is sent whose output is the lines of the simulated
  output joined by line feeds. If a line of the code is, after trimming,
  \<open>print('hello')\<close>, \<open>hello\<close> is one of these lines. If the code contains
  \<open>led.on()\<close>, the marker "LED encendido" is one of these lines and a part of the output.
  A statement line that matches neither pattern adds no line to the output, not even an
  empty one: the lines of the output are exactly the print lines of the lines that are
  scanned and match a pattern, in their order, followed by the canned marker lines, which
  \<open>code.includes\<close> chooses on the whole text of the code. Such a line shows in the
  output only when it holds one of the texts that choose a canned marker.
\<close>

theorem simulated_execution_output:
  assumes "attached s c d"
    and "connections s c = Some conn"
    and "m_type m = js ''executeCode''"
    and "m_deviceId m = d"
  shows "(\<exists>lines g dl.
            simulate_output (m_code m) (random s) = (lines, g)
            \<and> pending (step (Message c (Parsed m)) s) (length (timers s)) (ExecuteDelay c d lines) dl
            \<and> connections (step (TimerFires (length (timers s))) (step (Message c (Parsed m)) s)) c
                = Some (conn\<lparr>ws_sent := ws_sent conn @ [CodeExecuted d (js_join_lines lines) (now s)]\<rparr>)
            \<and> ((\<exists>l \<in> set (js_split_lines (m_code m)). js_trim l = print_hello)
                  \<longrightarrow> js ''hello'' \<in> set lines)
            \<and> (js_includes (m_code m) (js ''led.on()'')
                  \<longrightarrow> led_on_marker \<in> set lines \<and> js_includes (js_join_lines lines) led_on_marker)
            \<and> lines = fst (foldl scan_line ([], random s) (filter scanned (js_split_lines (m_code m))))
                        @ canned_lines (m_code m)
            \<and> g = snd (foldl scan_line ([], random s) (filter scanned (js_split_lines (m_code m)))))
         \<and> (\<forall>acc l. printMatch (js_trim l) = None \<and> fStringMatch (js_trim l) = None
                \<longrightarrow> scan_line acc l = acc)"
proof -
  obtain lines g where sim: "simulate_output (m_code m) (random s) = (lines, g)"
    by (cases "simulate_output (m_code m) (random s)")
  define dl where "dl = samples g (pos g) * 1000 + 500"
  define s1 where "s1 = step (Message c (Parsed m)) s"
  from assms have reg: "c \<in> activeConnections s" and dv: "devices conn d \<noteq> None"
    by (auto simp add: attached_def)
  have "handleMessage c m s = handleExecuteCode c m s"
    using reg assms(2,3) by (simp add: handleMessage_def activeConnections_get_def js_def)
  then have s1: "s1 = s\<lparr>random := g\<lparr>pos := Suc (pos g)\<rparr>,
                        timers := timers s @ [Some \<lparr>delay = dl, repeats = False,
                                                    callback = ExecuteDelay c d lines\<rparr>]\<rparr>"
    using reg assms(2,4) dv sim
    by (simp add: s1_def handleExecuteCode_def activeConnections_get_def next_random_eq
        setTimeout_def dl_def)
  have p: "pending s1 (length (timers s)) (ExecuteDelay c d lines) dl"
    by (simp add: s1 pending_def)
  have f: "connections (step (TimerFires (length (timers s))) s1) c
             = Some (conn\<lparr>ws_sent := ws_sent conn @ [CodeExecuted d (js_join_lines lines) (now s)]\<rparr>)"
    using assms(2) by (simp add: s1 ws_send_def)
  have lines: "lines = fst (foldl scan_line ([], random s) (js_split_lines (m_code m))) @ canned_lines (m_code m)"
    using sim simulate_output_fst [of "m_code m" "random s"] by simp
  have hello: "js ''hello'' \<in> set lines"
    if "\<exists>l \<in> set (js_split_lines (m_code m)). js_trim l = print_hello"
    using that by (auto simp add: lines foldl_scan_line_hello)
  have led: "led_on_marker \<in> set lines \<and> js_includes (js_join_lines lines) led_on_marker"
    if "js_includes (m_code m) (js ''led.on()'')"
  proof -
    from that have "led_on_marker \<in> set lines" by (simp add: lines canned_lines_def)
    then show ?thesis by (simp add: js_includes_join)
  qed
  have none: "scan_line acc l = acc"
    if "printMatch (js_trim l) = None \<and> fStringMatch (js_trim l) = None" for acc l
    using that by (rule scan_line_unmatched)
  have only: "lines = fst (foldl scan_line ([], random s) (filter scanned (js_split_lines (m_code m))))
                        @ canned_lines (m_code m)"
    "g = snd (foldl scan_line ([], random s) (filter scanned (js_split_lines (m_code m))))"
    using sim by (simp_all add: simulate_output_eq foldl_scan_line_scanned)
  have "simulate_output (m_code m) (random s) = (lines, g)
            \<and> pending s1 (length (timers s)) (ExecuteDelay c d lines) dl
            \<and> connections (step (TimerFires (length (timers s))) s1) c
                = Some (conn\<lparr>ws_sent := ws_sent conn @ [CodeExecuted d (js_join_lines lines) (now s)]\<rparr>)
            \<and> ((\<exists>l \<in> set (js_split_lines (m_code m)). js_trim l = print_hello)
                  \<longrightarrow> js ''hello'' \<in> set lines)
            \<and> (js_includes (m_code m) (js ''led.on()'')
                  \<longrightarrow> led_on_marker \<in> set lines \<and> js_includes (js_join_lines lines) led_on_marker)
            \<and> lines = fst (foldl scan_line ([], random s) (filter scanned (js_split_lines (m_code m))))
                        @ canned_lines (m_code m)
            \<and> g = snd (foldl scan_line ([], random s) (filter scanned (js_split_lines (m_code m))))"
    using sim p f hello led only by blast
  then show ?thesis
    using none unfolding s1_def by blast
qed

theorem simulated_execution_output_witness:
  "attached arduino_attached 1 (js ''arduino-uno'')
   \<and> js_trim (js_split_lines example_code ! 1) = print_hello
   \<and> js_includes example_code (js ''led.on()'')
   \<and> printMatch (js_trim (js ''x = 1'')) = None
   \<and> fStringMatch (js_trim (js ''x = 1'')) = None
   \<and> (\<exists>lines.
         connections (run [Message 1 (Parsed
                             \<lparr>m_type = js ''executeCode'', m_deviceId = js ''arduino-uno'',
                              m_peripheralId = None, m_baudrate = None, m_data = [],
                              m_code = example_code\<rparr>),
                           TimerFires 3] arduino_attached) 1
           = Some \<lparr>ws_sent = [Welcome 1,
                               DeviceConnected (js ''arduino-uno'') (Some (js ''COM3'')) 9600
                                 (Some (dev_capabilities arduino_uno)) (Some (dev_pins arduino_uno)),
                               CodeExecuted (js ''arduino-uno'') (js_join_lines lines) 0],
                    ip = js ''127.0.0.1'', is_connected = True,
                    devices = [js ''arduino-uno'' \<mapsto>
                                 \<lparr>s_spread = Some arduino_uno, s_peripheralId = Some (js ''COM3''),
                                  s_baudrate = 9600, s_connectedAt = 0, s_status = js ''connected''\<rparr>]\<rparr>
         \<and> js ''hello'' \<in> set lines
         \<and> led_on_marker \<in> set lines
         \<and> js_includes (js_join_lines lines) led_on_marker
         \<and> lines = [js ''hello'', led_on_marker])
   \<and> scan_line ([js ''a''], example_random) (js ''x = 1'') = ([js ''a''], example_random)"
proof -
  let ?d = "js ''arduino-uno''"
  let ?m = "\<lparr>m_type = js ''executeCode'', m_deviceId = js ''arduino-uno'',
             m_peripheralId = None, m_baudrate = None, m_data = [], m_code = example_code\<rparr>"
  let ?conn = "\<lparr>ws_sent = [Welcome 1,
                            DeviceConnected (js ''arduino-uno'') (Some (js ''COM3'')) 9600
                              (Some (dev_capabilities arduino_uno)) (Some (dev_pins arduino_uno))],
                 ip = js ''127.0.0.1'', is_connected = True,
                 devices = [js ''arduino-uno'' \<mapsto>
                              \<lparr>s_spread = Some arduino_uno, s_peripheralId = Some (js ''COM3''),
                               s_baudrate = 9600, s_connectedAt = 0, s_status = js ''connected''\<rparr>]\<rparr>"
  have a: "attached arduino_attached 1 ?d" by (simp add: attached_def arduino_attached_eq)
  have c: "connections arduino_attached 1 = Some ?conn" by (simp add: arduino_attached_eq)
  have t: "js_trim (js_split_lines example_code ! 1) = print_hello"
    unfolding example_code_lines by (simp add: print_hello_def js_def regex_defs)
  then have ex: "\<exists>l \<in> set (js_split_lines (m_code ?m)). js_trim l = print_hello"
    by (simp add: example_code_lines)
  have inc: "js_includes (m_code ?m) (js ''led.on()'')"
    by (simp add: example_code_def print_hello_def js_def)
  have n: "printMatch (js_trim (js ''x = 1'')) = None" "fStringMatch (js_trim (js ''x = 1'')) = None"
    by (simp_all add: js_def regex_defs)
  have len: "length (timers arduino_attached) = 3" "now arduino_attached = 0"
    by (simp_all add: arduino_attached_eq)
  have out: "fst (foldl scan_line ([], g) (filter scanned (js_split_lines (m_code ?m))))
               @ canned_lines (m_code ?m) = [js ''hello'', led_on_marker]" for g
    by (simp add: example_code_lines)
      (simp add: example_code_def scanned_def skipped_def scan_line_def canned_lines_def
        print_hello_def js_def regex_defs Let_def)
  from simulated_execution_output [OF a c, of ?m] ex inc n
  have "(\<exists>lines.
           connections (step (TimerFires 3) (step (Message 1 (Parsed ?m)) arduino_attached)) 1
             = Some (?conn\<lparr>ws_sent := ws_sent ?conn @ [CodeExecuted ?d (js_join_lines lines) 0]\<rparr>)
           \<and> js ''hello'' \<in> set lines \<and> led_on_marker \<in> set lines
           \<and> js_includes (js_join_lines lines) led_on_marker
           \<and> lines = fst (foldl scan_line ([], random arduino_attached)
                              (filter scanned (js_split_lines (m_code ?m))))
                       @ canned_lines (m_code ?m))
        \<and> scan_line ([js ''a''], example_random) (js ''x = 1'') = ([js ''a''], example_random)"
    unfolding len by (simp only: message.simps simp_thms) blast
  then have "(\<exists>lines.
           connections (step (TimerFires 3) (step (Message 1 (Parsed ?m)) arduino_attached)) 1
             = Some (?conn\<lparr>ws_sent := ws_sent ?conn @ [CodeExecuted ?d (js_join_lines lines) 0]\<rparr>)
           \<and> js ''hello'' \<in> set lines \<and> led_on_marker \<in> set lines
           \<and> js_includes (js_join_lines lines) led_on_marker
           \<and> lines = [js ''hello'', led_on_marker])
        \<and> scan_line ([js ''a''], example_random) (js ''x = 1'') = ([js ''a''], example_random)"
    unfolding out .
  with a t inc n show ?thesis by simp
qed

text \<open>
  The claim as stated fails in its third part: the statement \<open>x = 1\<close> is not skipped and
  matches neither pattern, and the output of \<open>x = 1\<close> followed by \<open>print('hello')\<close> is
  the one line \<open>hello\<close>, with no empty line for the first statement.
\<close>

theorem unmatched_statement_counterexample:
  "\<not> skipped (js ''x = 1'')
   \<and> printMatch (js_trim (js ''x = 1'')) = None
   \<and> fStringMatch (js_trim (js ''x = 1'')) = None
   \<and> js_split_lines (js ''x = 1'' @ [10] @ print_hello) = [js ''x = 1'', print_hello]
   \<and> fst (simulate_output (js ''x = 1'' @ [10] @ print_hello) example_random) = [js ''hello'']
   \<and> js_join_lines (fst (simulate_output (js ''x = 1'' @ [10] @ print_hello) example_random))
       = js ''hello''"
  by (simp add: skipped_def simulate_output_def scan_line_def canned_lines_def print_hello_def
      js_def regex_defs Let_def)

section \<open>Unsupported message types\<close>

text \<open>
  C8. A message whose \<open>type\<close> is none of the eight recognized kinds, arriving for a
  registered client, has one effect: an error frame whose text ends with the unsupported
  type is sent on that client's socket. The registry, every device map, the timers, the
  clock and the random source are unchanged.
\<close>

theorem unsupported_type_error_only:
  assumes "c \<in> activeConnections s" and "connections s c = Some conn"
    and "m_type message \<notin> set recognized_types"
  shows "step (Message c (Parsed message)) s =
           s\<lparr>connections := (connections s)(c \<mapsto>
               conn\<lparr>ws_sent := ws_sent conn @
                 [ErrorFrame (js ''Tipo de mensaje no soportado: '' @ m_type message) None]\<rparr>)\<rparr>"
  using assms
  by (simp add: handleMessage_def activeConnections_get_def recognized_types_def ws_send_def unsupported_message_def)

theorem unsupported_type_error_only_witness:
  "1 \<in> activeConnections one_client
   \<and> m_type (client_message ''reboot'' [] []) \<notin> set recognized_types
   \<and> step (Message 1 (Parsed (client_message ''reboot'' [] []))) one_client =
       one_client\<lparr>connections :=
         [1 \<mapsto> \<lparr>ws_sent = [Welcome 1, ErrorFrame (js ''Tipo de mensaje no soportado: reboot'') None],
                  ip = js ''127.0.0.1'', is_connected = True, devices = Map.empty\<rparr>]\<rparr>"
proof -
  have a: "1 \<in> activeConnections one_client"
    by (simp add: one_client_eq)
  have b: "connections one_client 1 =
             Some \<lparr>ws_sent = [Welcome 1], ip = js ''127.0.0.1'', is_connected = True,
                   devices = Map.empty\<rparr>"
    by (simp add: one_client_eq)
  have c: "m_type (client_message ''reboot'' [] []) \<notin> set recognized_types"
    by (simp add: client_message_def recognized_types_def js_def)
  from unsupported_type_error_only [OF a b c] a c show ?thesis
    by (simp add: one_client_eq client_message_def js_def)
qed

section \<open>A connect delay that outlives its connection\<close>

lemma connect_delay_ignores_registry:
  assumes "connections s c = Some conn" and "devices conn d = None"
    and "c \<notin> activeConnections s"
  shows "connect_delay_elapsed c d p b dev s =
           s\<lparr>connections := (connections s)(c \<mapsto>
               conn\<lparr>devices := (devices conn)(d \<mapsto>
                      \<lparr>s_spread = spread_of dev, s_peripheralId = or_port p dev, s_baudrate = b,
                       s_connectedAt = now s, s_status = js ''connected''\<rparr>),
                    ws_sent := ws_sent conn @
                      [DeviceConnected d (or_port p dev) b
                         (map_option dev_capabilities (spread_of dev))
                         (map_option dev_pins (spread_of dev))]\<rparr>)\<rparr>"
  using assms
  by (simp add: connect_delay_elapsed_def startDeviceDataSimulation_def
      handleDeviceSpecificActions_def activeConnections_get_def ws_send_def Let_def)

text \<open>
  C9. The delayed callback of \<open>connectDevice\<close> checks only whether the connection object
  it captured already has the device. When the socket closes while the delay is
  waiting, the callback still creates the session in that object and sends
  \<open>deviceConnected\<close> on the closed socket.
\<close>

theorem connect_completes_after_close:
  "activeConnections (run [Message 1 (Parsed (client_message ''connectDevice'' ''arduino-uno'' [])),
                           Close 1, TimerFires 0] one_client) = {}
   \<and> connections (run [Message 1 (Parsed (client_message ''connectDevice'' ''arduino-uno'' [])),
                       Close 1, TimerFires 0] one_client) 1
       = Some \<lparr>ws_sent = [Welcome 1,
                           DeviceConnected (js ''arduino-uno'') (Some (js ''COM3'')) 9600
                             (Some (dev_capabilities arduino_uno)) (Some (dev_pins arduino_uno))],
                ip = js ''127.0.0.1'', is_connected = True,
                devices = [js ''arduino-uno'' \<mapsto>
                             \<lparr>s_spread = Some arduino_uno, s_peripheralId = Some (js ''COM3''),
                              s_baudrate = 9600, s_connectedAt = 0, s_status = js ''connected''\<rparr>]\<rparr>"
  by (simp add: one_client_eq handler_defs scenario_defs arduino_uno_def)

section \<open>Comment lines and blank lines\<close>

text \<open>
  C10 as amended. A line whose trimmed text is empty or starts with \<open>#\<close> is skipped by
  the line scan, whatever pattern it contains: it leaves the output array and the random
  source as they are, and scanning a list of lines gives the same result as scanning its
  lines that are not skipped. So the simulated output is the print output of the lines
  that are not skipped, followed by the canned marker lines. These are chosen by
  \<open>code.includes\<close> on the whole text of the code, comment lines included: a code all of
  whose lines are skipped gives exactly its canned markers, and two codes with the same
  lines that are not skipped give the same output whenever their canned markers agree.
\<close>

theorem comment_and_blank_lines_skipped:
  "(skipped line \<longrightarrow> scan_line acc line = acc)
   \<and> foldl scan_line acc (filter (\<lambda>l. \<not> skipped l) ls) = foldl scan_line acc ls
   \<and> simulate_output code g =
        (fst (foldl scan_line ([], g) (filter (\<lambda>l. \<not> skipped l) (js_split_lines code)))
           @ canned_lines code,
         snd (foldl scan_line ([], g) (filter (\<lambda>l. \<not> skipped l) (js_split_lines code))))
   \<and> ((\<forall>l \<in> set (js_split_lines code). skipped l)
        \<longrightarrow> simulate_output code g = (canned_lines code, g))
   \<and> (filter (\<lambda>l. \<not> skipped l) (js_split_lines code)
          = filter (\<lambda>l. \<not> skipped l) (js_split_lines code')
        \<and> canned_lines code = canned_lines code'
        \<longrightarrow> simulate_output code g = simulate_output code' g)"
proof -
  have 1: "skipped line \<longrightarrow> scan_line acc line = acc"
    by (simp add: scan_line_skipped)
  have 2: "foldl scan_line acc (filter (\<lambda>l. \<not> skipped l) ls) = foldl scan_line acc ls"
    by (rule foldl_scan_line_skipped)
  have 3: "simulate_output code g =
        (fst (foldl scan_line ([], g) (filter (\<lambda>l. \<not> skipped l) (js_split_lines code)))
           @ canned_lines code,
         snd (foldl scan_line ([], g) (filter (\<lambda>l. \<not> skipped l) (js_split_lines code))))" for code
    by (simp add: simulate_output_eq foldl_scan_line_skipped)
  have 4: "simulate_output code g = (canned_lines code, g)"
    if "\<forall>l \<in> set (js_split_lines code). skipped l"
    using that by (simp add: simulate_output_eq foldl_scan_line_all_skipped)
  have 5: "simulate_output code g = simulate_output code' g"
    if "filter (\<lambda>l. \<not> skipped l) (js_split_lines code)
          = filter (\<lambda>l. \<not> skipped l) (js_split_lines code')
        \<and> canned_lines code = canned_lines code'"
    using that by (simp add: 3)
  from 1 2 3 [of code] 4 5 show ?thesis by blast
qed

lemma comment_code_lines:
  "js_split_lines comment_code =
     [js ''# print('' @ [39] @ js ''x'' @ [39] @ js '')'', js ''# led.on()'']"
  by (simp add: comment_code_def js_def)

theorem comment_and_blank_lines_skipped_witness:
  "skipped (js ''# print('' @ [39] @ js ''x'' @ [39] @ js '')'')
   \<and> skipped (js ''# led.on()'')
   \<and> printMatch (js_trim (js ''# print('' @ [39] @ js ''x'' @ [39] @ js '')'')) = Some (js ''x'')
   \<and> scan_line ([js ''a''], example_random) (js ''# print('' @ [39] @ js ''x'' @ [39] @ js '')'')
       = ([js ''a''], example_random)
   \<and> canned_lines comment_code = canned_lines (js ''# led.on()'')
   \<and> simulate_output comment_code example_random = ([led_on_marker], example_random)
   \<and> simulate_output comment_code example_random
       = simulate_output (js ''# led.on()'') example_random"
proof -
  let ?l = "js ''# print('' @ [39] @ js ''x'' @ [39] @ js '')''"
  let ?k = "js ''# led.on()''"
  have a: "skipped ?l" "skipped ?k"
    by (simp_all add: skipped_def js_def regex_defs)
  have b: "printMatch (js_trim ?l) = Some (js ''x'')"
    by (simp add: js_def regex_defs)
  have all: "\<forall>l \<in> set (js_split_lines comment_code). skipped l"
    using a by (simp add: comment_code_lines)
  have k: "js_split_lines ?k = [?k]" by (simp add: js_def)
  have flt: "filter (\<lambda>l. \<not> skipped l) (js_split_lines comment_code)
               = filter (\<lambda>l. \<not> skipped l) (js_split_lines ?k)"
    using a by (simp add: comment_code_lines k)
  have cl: "canned_lines comment_code = [led_on_marker]" "canned_lines ?k = [led_on_marker]"
    by (simp_all add: canned_lines_def comment_code_def js_def)
  note skip = comment_and_blank_lines_skipped
      [of ?l "([js ''a''], example_random)" "[]" comment_code example_random ?k]
  from skip a have 1: "scan_line ([js ''a''], example_random) ?l = ([js ''a''], example_random)"
    by blast
  from skip all have 2: "simulate_output comment_code example_random
                           = (canned_lines comment_code, example_random)"
    by blast
  have cle: "canned_lines comment_code = canned_lines ?k"
    using cl by simp
  from skip flt cle have 3: "simulate_output comment_code example_random
                               = simulate_output ?k example_random"
    by blast
  from a b 1 2 3 cl show ?thesis by simp
qed

text \<open>
  The claim as stated fails: the line \<open># led.on()\<close> is a comment and is skipped by the
  scan, yet the output of the code that consists of this line is the marker
  "LED encendido", while the output of the empty code is empty.
\<close>

theorem comment_line_marker_counterexample:
  "skipped (js ''# led.on()'')
   \<and> js_split_lines (js ''# led.on()'') = [js ''# led.on()'']
   \<and> simulate_output (js ''# led.on()'') example_random = ([led_on_marker], example_random)
   \<and> js_join_lines (fst (simulate_output (js ''# led.on()'') example_random)) = led_on_marker
   \<and> simulate_output [] example_random = ([], example_random)"
  by (simp add: skipped_def simulate_output_def scan_line_def canned_lines_def js_def regex_defs
      Let_def)

end
